theory Spec2Isabelle
  imports Complex_Main "HOL-Library.Word"
begin

section \<open>Numbers and helpers\<close>

text \<open>
  Python integers are unbounded: \<open>int\<close>.  An exception is a value of \<open>error\<close>, and a
  computation that may raise returns \<open>error + 'a\<close>.
\<close>

datatype error =
  KeyError | AttributeError | TypeError | NameError | ZeroDivisionError
  | OverflowError | ValueError

definition bind_err :: "error + 'a \<Rightarrow> ('a \<Rightarrow> error + 'b) \<Rightarrow> error + 'b" where
  "bind_err m f = (case m of Inl e \<Rightarrow> Inl e | Inr x \<Rightarrow> f x)"

lemma bind_err_cong [fundef_cong]:
  assumes "m = m'" and "\<And>x. m' = Inr x \<Longrightarrow> f x = g x"
  shows "bind_err m f = bind_err m' g"
  using assms by (cases m') (simp_all add: bind_err_def)

text \<open>A \<open>for\<close> loop that updates every element in turn and stops at the first raise.\<close>

fun map_err :: "('a \<Rightarrow> error + 'b) \<Rightarrow> 'a list \<Rightarrow> error + 'b list" where
  "map_err f [] = Inr []"
| "map_err f (x # xs) =
     bind_err (f x) (\<lambda>y. bind_err (map_err f xs) (\<lambda>ys. Inr (y # ys)))"

lemma map_err_cong [fundef_cong]:
  assumes "xs = ys" and "\<And>x. x \<in> set ys \<Longrightarrow> f x = g x"
  shows "map_err f xs = map_err g ys"
  unfolding assms(1) using assms(2) by (induction ys) (simp_all cong: bind_err_cong)

text \<open>
  Modelled from the spec: the helper \<open>clamp(value, min, max)\<close> (module \<open>clamp\<close>, not
  among the sources): "clamp to [min, max] (treating an unset bound as unbounded)".
  The lower bound is tested first.
\<close>

definition clamp :: "'a::linorder \<Rightarrow> 'a option \<Rightarrow> 'a option \<Rightarrow> 'a" where
  "clamp v lo hi =
     (if lo \<noteq> None \<and> v < the lo then the lo
      else if hi \<noteq> None \<and> the hi < v then the hi
      else v)"

subsection \<open>Floats\<close>

text \<open>
  A Python float is an IEEE 754 double: a finite value, an infinity or NaN.  A finite
  float is given by its value (the sign of a zero is not kept).
\<close>

datatype pyfloat = Finite real | PosInf | NegInf | NaN

text \<open>\<open>int.bit_length()\<close> of a positive integer.\<close>

function bit_length :: "int \<Rightarrow> int" where
  "bit_length n = (if n \<le> 0 then 0 else 1 + bit_length (n div 2))"
  by pat_completeness auto
termination
  by (relation "measure nat") auto

declare bit_length.simps [simp del]

definition pow2 :: "int \<Rightarrow> real" where
  "pow2 q = (if 0 \<le> q then 2 ^ nat q else 1 / 2 ^ nat (- q))"

text \<open>The exponent \<open>e\<close> of a nonzero real: \<open>2 ^ e \<le> \<bar>x\<bar> < 2 ^ (e + 1)\<close>.\<close>

definition flog2 :: "real \<Rightarrow> int" where
  "flog2 x =
     (let a = \<bar>x\<bar> in
      if 1 \<le> a then bit_length \<lfloor>a\<rfloor> - 1
      else - bit_length (\<lceil>1 / a\<rceil> - 1))"

text \<open>Python's \<open>round(x)\<close> on a finite value: to the nearest integer, ties to the even one.\<close>

definition py_round :: "real \<Rightarrow> int" where
  "py_round x =
     (let f = \<lfloor>x\<rfloor>; d = x - of_int f in
      if d < 1 / 2 then f
      else if 1 / 2 < d then f + 1
      else if even f then f else f + 1)"

text \<open>Python's \<open>int(x)\<close> on a finite value: truncation towards zero.\<close>

definition py_int :: "real \<Rightarrow> int" where
  "py_int x = (if 0 \<le> x then \<lfloor>x\<rfloor> else \<lceil>x\<rceil>)"

text \<open>
  The double nearest to a real, as every arithmetic operation on doubles and the
  reading of a literal round their exact result: 53 significant bits, ties to the even
  significand, no step finer than \<open>2 ^ -1074\<close>, and an infinity when the rounded value
  reaches \<open>2 ^ 1024\<close>.
\<close>

definition fl :: "real \<Rightarrow> pyfloat" where
  "fl x =
     (if x = 0 then Finite 0
      else
        let q = max (flog2 x - 52) (- 1074);
            r = of_int (py_round (x / pow2 q)) * pow2 q
        in if 2 ^ 1024 \<le> \<bar>r\<bar> then (if 0 < x then PosInf else NegInf) else Finite r)"

text \<open>The product of two floats.\<close>

fun fmul :: "pyfloat \<Rightarrow> pyfloat \<Rightarrow> pyfloat" where
  "fmul NaN _ = NaN"
| "fmul _ NaN = NaN"
| "fmul (Finite x) (Finite y) = fl (x * y)"
| "fmul (Finite x) PosInf = (if x = 0 then NaN else if 0 < x then PosInf else NegInf)"
| "fmul (Finite x) NegInf = (if x = 0 then NaN else if 0 < x then NegInf else PosInf)"
| "fmul PosInf (Finite y) = (if y = 0 then NaN else if 0 < y then PosInf else NegInf)"
| "fmul NegInf (Finite y) = (if y = 0 then NaN else if 0 < y then NegInf else PosInf)"
| "fmul PosInf PosInf = PosInf"
| "fmul PosInf NegInf = NegInf"
| "fmul NegInf PosInf = NegInf"
| "fmul NegInf NegInf = PosInf"

text \<open>
  The conversion of an int in mixed arithmetic (\<open>h_hint * h\<close>, \<open>h * y_hint\<close>): the
  nearest double, and OverflowError for an int too large for a float.
\<close>

definition float_of_int :: "int \<Rightarrow> error + pyfloat" where
  "float_of_int n =
     (case fl (of_int n) of Finite r \<Rightarrow> Inr (Finite r) | _ \<Rightarrow> Inl OverflowError)"

definition mul_int_float :: "int \<Rightarrow> pyfloat \<Rightarrow> error + pyfloat" where
  "mul_int_float n y = bind_err (float_of_int n) (\<lambda>fn. Inr (fmul fn y))"

definition mul_float_int :: "pyfloat \<Rightarrow> int \<Rightarrow> error + pyfloat" where
  "mul_float_int y n = bind_err (float_of_int n) (\<lambda>fn. Inr (fmul y fn))"

text \<open>\<open>round(x)\<close> and \<open>int(x)\<close> on a float: an infinity and NaN cannot be converted.\<close>

definition round_float :: "pyfloat \<Rightarrow> error + int" where
  "round_float p =
     (case p of Finite x \<Rightarrow> Inr (py_round x)
      | PosInf \<Rightarrow> Inl OverflowError | NegInf \<Rightarrow> Inl OverflowError | NaN \<Rightarrow> Inl ValueError)"

definition int_float :: "pyfloat \<Rightarrow> error + int" where
  "int_float p =
     (case p of Finite x \<Rightarrow> Inr (py_int x)
      | PosInf \<Rightarrow> Inl OverflowError | NegInf \<Rightarrow> Inl OverflowError | NaN \<Rightarrow> Inl ValueError)"

text \<open>
  Where Python has an int, a float or \<open>None\<close>: a hint, a component of a property value.
\<close>

datatype num = I int | F pyfloat | N

text \<open>The operand of float arithmetic: an int is converted, \<open>None\<close> raises TypeError.\<close>

fun to_float :: "num \<Rightarrow> error + pyfloat" where
  "to_float (I i) = float_of_int i"
| "to_float (F x) = Inr x"
| "to_float N = Inl TypeError"

text \<open>
  \<open>round(hint * n)\<close> and \<open>int(n * hint)\<close> for an int \<open>n\<close>: the product of two ints is
  exact and an int already; with a float, the int is converted and the product is that
  of two doubles, which \<open>round\<close> and \<open>int\<close> cannot convert when it is infinite or NaN.
\<close>

fun round_times :: "num \<Rightarrow> int \<Rightarrow> error + int" where
  "round_times (I k) n = Inr (k * n)"
| "round_times (F x) n = bind_err (mul_float_int x n) round_float"
| "round_times N n = Inl TypeError"

fun int_times :: "int \<Rightarrow> num \<Rightarrow> error + int" where
  "int_times n (I k) = Inr (n * k)"
| "int_times n (F x) = bind_err (mul_int_float n x) int_float"
| "int_times n N = Inl TypeError"

text \<open>The sum, the difference and the comparison \<open><\<close> of two floats.\<close>

fun fadd :: "pyfloat \<Rightarrow> pyfloat \<Rightarrow> pyfloat" where
  "fadd NaN _ = NaN"
| "fadd _ NaN = NaN"
| "fadd (Finite x) (Finite y) = fl (x + y)"
| "fadd (Finite x) PosInf = PosInf"
| "fadd (Finite x) NegInf = NegInf"
| "fadd PosInf (Finite y) = PosInf"
| "fadd NegInf (Finite y) = NegInf"
| "fadd PosInf PosInf = PosInf"
| "fadd PosInf NegInf = NaN"
| "fadd NegInf PosInf = NaN"
| "fadd NegInf NegInf = NegInf"

fun fneg :: "pyfloat \<Rightarrow> pyfloat" where
  "fneg (Finite x) = Finite (- x)"
| "fneg PosInf = NegInf"
| "fneg NegInf = PosInf"
| "fneg NaN = NaN"

definition fsub :: "pyfloat \<Rightarrow> pyfloat \<Rightarrow> pyfloat" where
  "fsub x y = fadd x (fneg y)"

text \<open>Every comparison with NaN is false.\<close>

fun float_lt :: "pyfloat \<Rightarrow> pyfloat \<Rightarrow> bool" where
  "float_lt NaN _ = False"
| "float_lt _ NaN = False"
| "float_lt (Finite x) (Finite y) = (x < y)"
| "float_lt (Finite x) PosInf = True"
| "float_lt NegInf (Finite y) = True"
| "float_lt NegInf PosInf = True"
| "float_lt _ _ = False"

text \<open>The quotient of two floats: a zero divisor raises ZeroDivisionError.\<close>

fun fdiv :: "pyfloat \<Rightarrow> pyfloat \<Rightarrow> error + pyfloat" where
  "fdiv x (Finite y) =
     (if y = 0 then Inl ZeroDivisionError
      else case x of
             Finite a \<Rightarrow> Inr (fl (a / y))
           | PosInf \<Rightarrow> Inr (if 0 < y then PosInf else NegInf)
           | NegInf \<Rightarrow> Inr (if 0 < y then NegInf else PosInf)
           | NaN \<Rightarrow> Inr NaN)"
| "fdiv x NaN = Inr NaN"
| "fdiv x y = Inr (case x of Finite a \<Rightarrow> Finite 0 | _ \<Rightarrow> NaN)"

section \<open>The widget tree (widget.py)\<close>

datatype anchor =
  TOP_LEFT | TOP_RIGHT | BOTTOM_LEFT | BOTTOM_RIGHT | CENTER
  | TOP_CENTER | BOTTOM_CENTER | LEFT_CENTER | RIGHT_CENTER

text \<open>
  The fields \<open>Widget.__init__\<close> stores, without the parent back-reference (the parent's
  size is passed to the functions that read it) and with an identity \<open>ident\<close> standing
  for the Python object.  \<open>w_size\<close> is \<open>_size\<close> (height, width), \<open>w_pos\<close> is \<open>_pos\<close>
  (top, left).  A hint is a number or \<open>None\<close>.
\<close>

record attrs =
  ident :: nat
  w_size :: "int \<times> int"
  w_pos :: "int \<times> int"
  size_hint :: "num \<times> num"
  min_height :: "int option"
  max_height :: "int option"
  min_width :: "int option"
  max_width :: "int option"
  pos_hint :: "num \<times> num"
  anchor :: anchor
  is_transparent :: bool
  is_visible :: bool
  is_enabled :: bool
  background_char :: "char option"
  background_color_pair :: "nat option"

datatype widget = Widget (attrs: attrs) (children: "widget list")

text \<open>\<open>Widget.__init__\<close>: every argument is stored as given; no child, no parent.\<close>

definition init :: "nat \<Rightarrow> int \<times> int \<Rightarrow> int \<times> int \<Rightarrow> num \<times> num
    \<Rightarrow> int option \<Rightarrow> int option \<Rightarrow> int option \<Rightarrow> int option
    \<Rightarrow> num \<times> num \<Rightarrow> anchor \<Rightarrow> bool \<Rightarrow> bool \<Rightarrow> bool
    \<Rightarrow> char option \<Rightarrow> nat option \<Rightarrow> widget" where
  "init i sz p sh minw maxw minh maxh ph an tr vis en bc bcp =
     Widget \<lparr> ident = i, w_size = sz, w_pos = p, size_hint = sh,
              min_height = minh, max_height = maxh, min_width = minw, max_width = maxw,
              pos_hint = ph, anchor = an,
              is_transparent = tr, is_visible = vis, is_enabled = en,
              background_char = bc, background_color_pair = bcp \<rparr> []"

text \<open>The default arguments of \<open>Widget.__init__\<close> with a given size.\<close>

definition init_default :: "nat \<Rightarrow> int \<times> int \<Rightarrow> widget" where
  "init_default i sz =
     init i sz (0, 0) (N, N) None None None None (N, N) TOP_LEFT
       False True True None None"

definition height :: "widget \<Rightarrow> int" where
  "height wd = fst (w_size (attrs wd))"

definition width :: "widget \<Rightarrow> int" where
  "width wd = snd (w_size (attrs wd))"

definition top_w :: "widget \<Rightarrow> int" where
  "top_w wd = fst (w_pos (attrs wd))"

definition left :: "widget \<Rightarrow> int" where
  "left wd = snd (w_pos (attrs wd))"

definition bottom :: "widget \<Rightarrow> int" where
  "bottom wd = top_w wd + height wd"

definition right :: "widget \<Rightarrow> int" where
  "right wd = left wd + width wd"

text \<open>\<open>center\<close>: \<open>Point(height // 2, width // 2)\<close>, with Python's floor division.\<close>

definition center :: "widget \<Rightarrow> int \<times> int" where
  "center wd = (height wd div 2, width wd div 2)"

text \<open>The \<open>pos\<close> setter, and the \<open>top\<close> and \<open>left\<close> setters that go through it.\<close>

definition set_pos :: "widget \<Rightarrow> int \<times> int \<Rightarrow> widget" where
  "set_pos wd p = Widget ((attrs wd)\<lparr>w_pos := p\<rparr>) (children wd)"

definition set_top :: "widget \<Rightarrow> int \<Rightarrow> widget" where
  "set_top wd t = set_pos wd (t, left wd)"

definition set_left :: "widget \<Rightarrow> int \<Rightarrow> widget" where
  "set_left wd l = set_pos wd (top_w wd, l)"

text \<open>The \<open>match self.anchor\<close> of \<open>update_geometry\<close>: (offset_top, offset_left).\<close>

definition anchor_offset :: "widget \<Rightarrow> int \<times> int" where
  "anchor_offset wd =
     (case anchor (attrs wd) of
        TOP_LEFT \<Rightarrow> (0, 0)
      | TOP_RIGHT \<Rightarrow> (0, width wd)
      | BOTTOM_LEFT \<Rightarrow> (height wd, 0)
      | BOTTOM_RIGHT \<Rightarrow> (height wd, width wd)
      | CENTER \<Rightarrow> center wd
      | TOP_CENTER \<Rightarrow> (0, snd (center wd))
      | BOTTOM_CENTER \<Rightarrow> (height wd, snd (center wd))
      | LEFT_CENTER \<Rightarrow> (fst (center wd), 0)
      | RIGHT_CENTER \<Rightarrow> (fst (center wd), width wd))"

text \<open>
  The second half of \<open>update_geometry\<close> (from \<open>y_hint, x_hint = self.pos_hint\<close> on):
  \<open>int(h * y_hint)\<close> cuts the product towards zero.
\<close>

definition apply_pos_hint :: "int \<times> int \<Rightarrow> widget \<Rightarrow> error + widget" where
  "apply_pos_hint psize wd =
     (let (h, w) = psize; (y_hint, x_hint) = pos_hint (attrs wd) in
      if y_hint = N \<and> x_hint = N then Inr wd
      else
        let (offset_top, offset_left) = anchor_offset wd in
        bind_err
          (if y_hint \<noteq> N
           then bind_err (int_times h y_hint) (\<lambda>t. Inr (set_top wd (t - offset_top)))
           else Inr wd)
          (\<lambda>wd1.
             if x_hint \<noteq> N
             then bind_err (int_times w x_hint) (\<lambda>l. Inr (set_left wd1 (l - offset_left)))
             else Inr wd1))"

text \<open>
  The \<open>size\<close> setter and \<open>update_geometry\<close> call each other: the setter clamps both
  dimensions to at least 1 and resolves every child against the new size;
  \<open>update_geometry\<close> takes the parent's size (\<open>None\<close> when \<open>self.parent is None\<close>) and
  assigns the hinted size through the setter.  An exception ends the whole resolution.  \<open>on_size\<close> does nothing in \<open>Widget\<close>, and no
  subscriber is registered on the setters.
\<close>

lemma size_child_le: "c \<in> set cs \<Longrightarrow> size c \<le> size_list size cs"
  by (induction cs) auto

function (sequential) set_size :: "widget \<Rightarrow> int \<times> int \<Rightarrow> error + widget"
  and update_geometry :: "(int \<times> int) option \<Rightarrow> widget \<Rightarrow> error + widget" where
  "set_size (Widget a cs) (h, w) =
     (let sz = (clamp h (Some 1) None, clamp w (Some 1) None) in
      bind_err (map_err (update_geometry (Some sz)) cs) (\<lambda>cs'.
      Inr (Widget (a\<lparr>w_size := sz\<rparr>) cs')))"
| "update_geometry None wd = Inr wd"
| "update_geometry (Some (h, w)) (Widget a cs) =
     (let (h_hint, w_hint) = size_hint a in
      bind_err
        (if h_hint \<noteq> N \<or> w_hint \<noteq> N then
           bind_err
             (if h_hint = N then Inr (fst (w_size a))
              else bind_err (round_times h_hint h) (\<lambda>r.
                     Inr (clamp r (min_height a) (max_height a))))
             (\<lambda>height'.
           bind_err
             (if w_hint = N then Inr (snd (w_size a))
              else bind_err (round_times w_hint w) (\<lambda>r.
                     Inr (clamp r (min_width a) (max_width a))))
             (\<lambda>width'. set_size (Widget a cs) (height', width')))
         else Inr (Widget a cs))
        (apply_pos_hint (h, w)))"
  by pat_completeness auto
termination
  by (relation "measure (\<lambda>x. case x of Inl (wd, _) \<Rightarrow> 2 * size wd
                                   | Inr (_, wd) \<Rightarrow> 2 * size wd + 1)")
     (auto dest: size_child_le)

text \<open>
  Closed forms used to state what \<open>update_geometry\<close> computes: whether a size hint is
  set, the size after the first half and the position after the second half.
\<close>

definition hinted :: "attrs \<Rightarrow> bool" where
  "hinted a = (fst (size_hint a) \<noteq> N \<or> snd (size_hint a) \<noteq> N)"

definition hinted_dim :: "int \<Rightarrow> num \<Rightarrow> int \<Rightarrow> int option \<Rightarrow> int option \<Rightarrow> error + int" where
  "hinted_dim current hint pdim lo hi =
     (if hint = N then Inr current
      else bind_err (round_times hint pdim) (\<lambda>r. Inr (clamp r lo hi)))"

definition resolved_size :: "int \<times> int \<Rightarrow> attrs \<Rightarrow> error + int \<times> int" where
  "resolved_size psize a =
     (if hinted a then
        bind_err (hinted_dim (fst (w_size a)) (fst (size_hint a)) (fst psize)
                    (min_height a) (max_height a)) (\<lambda>height'.
        bind_err (hinted_dim (snd (w_size a)) (snd (size_hint a)) (snd psize)
                    (min_width a) (max_width a)) (\<lambda>width'.
        Inr (max 1 height', max 1 width')))
      else Inr (w_size a))"

definition hinted_coord :: "int \<Rightarrow> num \<Rightarrow> int \<Rightarrow> int \<Rightarrow> error + int" where
  "hinted_coord current hint pdim offset =
     (if hint = N then Inr current
      else bind_err (int_times pdim hint) (\<lambda>t. Inr (t - offset)))"

definition resolved_pos :: "int \<times> int \<Rightarrow> attrs \<Rightarrow> error + int \<times> int" where
  "resolved_pos psize a =
     bind_err (hinted_coord (fst (w_pos a)) (fst (pos_hint a)) (fst psize)
                 (fst (anchor_offset (Widget a [])))) (\<lambda>t.
     bind_err (hinted_coord (snd (w_pos a)) (snd (pos_hint a)) (snd psize)
                 (snd (anchor_offset (Widget a [])))) (\<lambda>l.
     Inr (t, l)))"

subsection \<open>Rendering: \<open>render\<close>, \<open>render_children\<close>, \<open>render_intersection\<close>\<close>

text \<open>
  A slice is (start, stop).  The canvas and colors views are not modelled cell by cell:
  every call of \<open>render\<close> is logged with the identity of the widget, the destination
  slices taken out of the parent's views and the source slices.  The two fills of
  \<open>render\<close> (background character and color pair of a widget that is not transparent)
  write into the views cut by the destination slices; they decide no call.
\<close>

type_synonym slice = "int \<times> int"

datatype paint = Render nat "slice \<times> slice" "slice \<times> slice"

function (sequential) render :: "widget \<Rightarrow> slice \<times> slice \<Rightarrow> slice \<times> slice \<Rightarrow> paint list"
  and render_children :: "widget \<Rightarrow> slice \<times> slice \<Rightarrow> paint list"
  and render_intersection :: "widget \<Rightarrow> slice \<times> slice \<Rightarrow> paint list" where
  "render (Widget a cs) dest_slice source =
     Render (ident a) dest_slice source # render_children (Widget a cs) source"
| "render_children (Widget a cs) destination =
     concat (map (\<lambda>child.
        if is_visible (attrs child) \<and> is_enabled (attrs child)
        then render_intersection child destination else []) cs)"
| "render_intersection (Widget a cs) (vert_slice, hori_slice) =
     (let t = fst vert_slice; h = snd vert_slice - t;
          l = fst hori_slice; w = snd hori_slice - l;
          wt = top_w (Widget a cs) - t; wb = bottom (Widget a cs) - t;
          wl = left (Widget a cs) - l; wr = right (Widget a cs) - l
      in
      if wt \<ge> h \<or> wb < 0 \<or> wl \<ge> w \<or> wr < 0 then []
      else
        let (st, dt, sb, db) =
              (if wt < 0 then
                 (if wb \<ge> h then (- wt, 0, h + (- wt), h)
                  else (- wt, 0, height (Widget a cs), wb))
               else
                 (if wb \<ge> h then (0, wt, h - wt, h)
                  else (0, wt, height (Widget a cs), wb)));
            (sl, dl, sr, dr) =
              (if wl < 0 then
                 (if wr \<ge> w then (- wl, 0, w + (- wl), w)
                  else (- wl, 0, width (Widget a cs), wr))
               else
                 (if wr \<ge> w then (0, wl, w - wl, w)
                  else (0, wl, width (Widget a cs), wr)))
        in render (Widget a cs) ((dt, db), (dl, dr)) ((st, sb), (sl, sr)))"
  by pat_completeness auto
termination
  by (relation "measure (\<lambda>x. case x of
         Inl (wd, _, _) \<Rightarrow> 3 * size wd + 1
       | Inr (Inl (wd, _)) \<Rightarrow> 3 * size wd
       | Inr (Inr (wd, _)) \<Rightarrow> 3 * size wd + 2)")
     (auto dest: size_child_le)

subsection \<open>Event dispatch\<close>

text \<open>
  A handler returns \<open>True\<close>, \<open>False\<close> or \<open>None\<close>; only \<open>True\<close> is truthy.  The handlers
  are methods that subclasses override, so they are given per widget identity; they
  do not change the tree.  A dispatch returns the identities whose handler ran, in call
  order, and its value.
\<close>

definition truthy :: "bool option \<Rightarrow> bool" where
  "truthy r = (r = Some True)"

text \<open>\<open>any(...)\<close> over a generator: evaluates lazily and stops at the first truthy value.\<close>

fun py_any :: "('a \<Rightarrow> nat list \<times> bool option) \<Rightarrow> 'a list \<Rightarrow> nat list \<times> bool" where
  "py_any f [] = ([], False)"
| "py_any f (x # xs) =
     (let (tr, r) = f x in
      if truthy r then (tr, True)
      else let (tr', b) = py_any f xs in (tr @ tr', b))"

lemma py_any_cong [fundef_cong]:
  assumes "xs = ys" and "\<And>x. x \<in> set ys \<Longrightarrow> f x = g x"
  shows "py_any f xs = py_any g ys"
  unfolding assms(1) using assms(2) by (induction ys) (simp_all split: prod.splits)

fun dispatch :: "(nat \<Rightarrow> 'e \<Rightarrow> bool option) \<Rightarrow> widget \<Rightarrow> 'e \<Rightarrow> nat list \<times> bool option" where
  "dispatch on_event (Widget a cs) event =
     (let (tr, handled) =
            py_any (\<lambda>widget. dispatch on_event widget event)
              (filter (\<lambda>widget. is_enabled (attrs widget)) (rev cs))
      in if handled then (tr, Some True)
         else (tr @ [ident a], on_event (ident a) event))"

record ('k, 'm, 'p) handlers =
  on_press :: "nat \<Rightarrow> 'k \<Rightarrow> bool option"
  on_click :: "nat \<Rightarrow> 'm \<Rightarrow> bool option"
  on_double_click :: "nat \<Rightarrow> 'm \<Rightarrow> bool option"
  on_triple_click :: "nat \<Rightarrow> 'm \<Rightarrow> bool option"
  on_paste :: "nat \<Rightarrow> 'p \<Rightarrow> bool option"

text \<open>The five dispatch methods have the same body, each with its own handler.\<close>

definition dispatch_press :: "('k, 'm, 'p) handlers \<Rightarrow> widget \<Rightarrow> 'k \<Rightarrow> nat list \<times> bool option" where
  "dispatch_press H wd key_press_event = dispatch (on_press H) wd key_press_event"

definition dispatch_click :: "('k, 'm, 'p) handlers \<Rightarrow> widget \<Rightarrow> 'm \<Rightarrow> nat list \<times> bool option" where
  "dispatch_click H wd mouse_event = dispatch (on_click H) wd mouse_event"

definition dispatch_double_click :: "('k, 'm, 'p) handlers \<Rightarrow> widget \<Rightarrow> 'm \<Rightarrow> nat list \<times> bool option" where
  "dispatch_double_click H wd mouse_event = dispatch (on_double_click H) wd mouse_event"

definition dispatch_triple_click :: "('k, 'm, 'p) handlers \<Rightarrow> widget \<Rightarrow> 'm \<Rightarrow> nat list \<times> bool option" where
  "dispatch_triple_click H wd mouse_event = dispatch (on_triple_click H) wd mouse_event"

definition dispatch_paste :: "('k, 'm, 'p) handlers \<Rightarrow> widget \<Rightarrow> 'p \<Rightarrow> nat list \<times> bool option" where
  "dispatch_paste H wd paste_event = dispatch (on_paste H) wd paste_event"

text \<open>
  The dispatch policy in the spec's words: children in reverse list order, depth first,
  disabled children left out with their subtrees, the node itself last; the handlers
  run along this order up to and including the first one that handles the event.
\<close>

fun visit_order :: "widget \<Rightarrow> nat list" where
  "visit_order (Widget a cs) =
     concat (map visit_order (filter (\<lambda>c. is_enabled (attrs c)) (rev cs))) @ [ident a]"

definition until_handled :: "('a \<Rightarrow> bool) \<Rightarrow> 'a list \<Rightarrow> 'a list" where
  "until_handled P xs = takeWhile (\<lambda>x. \<not> P x) xs @ take 1 (dropWhile (\<lambda>x. \<not> P x) xs)"

definition dispatch_spec :: "(nat \<Rightarrow> 'e \<Rightarrow> bool option) \<Rightarrow> widget \<Rightarrow> 'e \<Rightarrow> nat list \<times> bool" where
  "dispatch_spec on_event wd event =
     (until_handled (\<lambda>i. truthy (on_event i event)) (visit_order wd),
      list_ex (\<lambda>i. truthy (on_event i event)) (visit_order wd))"

subsection \<open>Subscriptions: \<open>emitter\<close>, \<open>subscribe\<close>, \<open>unsubscribe\<close>\<close>

text \<open>
  Every setter decorated with \<open>emitter\<close> owns a dictionary \<open>instances\<close> from source
  widgets to dictionaries from subscribers to actions.  Widgets are given by identity;
  both widgets are alive during a call, so no weak key is collected.  The properties of
  \<open>Widget\<close> whose setter is decorated are listed; for any other name
  \<open>getattr(type(source), attr).fset.instances\<close> raises AttributeError.
\<close>

definition emitter_attrs :: "string list" where
  "emitter_attrs = [''size'', ''pos'', ''size_hint'', ''min_height'', ''max_height'',
     ''min_width'', ''max_width'', ''pos_hint'', ''anchor'', ''background_char'']"

type_synonym 'act registry = "string \<Rightarrow> nat \<rightharpoonup> (nat \<rightharpoonup> 'act)"

definition subscribe :: "'act registry \<Rightarrow> nat \<Rightarrow> nat \<Rightarrow> string \<Rightarrow> 'act \<Rightarrow> error + 'act registry" where
  "subscribe R self source attr action =
     (if attr \<notin> set emitter_attrs then Inl AttributeError
      else
        let subscribers = (case R attr source of None \<Rightarrow> Map.empty | Some subs \<Rightarrow> subs)
        in Inr (R(attr := (R attr)(source \<mapsto> subscribers(self \<mapsto> action)))))"

definition unsubscribe :: "'act registry \<Rightarrow> nat \<Rightarrow> nat \<Rightarrow> string \<Rightarrow> error + ('act option \<times> 'act registry)" where
  "unsubscribe R self source attr =
     (if attr \<notin> set emitter_attrs then Inl AttributeError
      else
        case R attr source of
          None \<Rightarrow> Inl KeyError
        | Some subs \<Rightarrow> Inr (subs self, R(attr := (R attr)(source \<mapsto> subs(self := None)))))"

subsection \<open>\<open>tween\<close>\<close>

text \<open>
  A property value is a number or \<open>None\<close>, or a sequence of such components.
\<close>

datatype pyval = Scalar num | Seq "num list"

text \<open>
  Modelled from the spec: \<open>easings.lerp\<close> and the linear easing (module \<open>easings\<close>, not
  among the sources): "linearly interpolate component-wise between the snapshotted
  start value and the target using p", as \<open>(1.0 - p) * a + p * b\<close> on floats.
\<close>

definition lerp :: "num \<Rightarrow> num \<Rightarrow> pyfloat \<Rightarrow> error + pyfloat" where
  "lerp a b p =
     bind_err (to_float a) (\<lambda>x.
     bind_err (to_float b) (\<lambda>y.
       Inr (fadd (fmul (fsub (Finite 1) p) x) (fmul p y))))"

definition linear :: "pyfloat \<Rightarrow> pyfloat" where
  "linear p = p"

text \<open>
  The generator expressions over \<open>zip(start_value, target)\<close>: \<open>zip\<close> stops at the
  shorter sequence; the first component that raises ends the evaluation.
\<close>

fun lerp_ints :: "(num \<times> num) list \<Rightarrow> pyfloat \<Rightarrow> error + num list" where
  "lerp_ints [] p = Inr []"
| "lerp_ints ((i, j) # rest) p =
     (case bind_err (lerp i j p) round_float of
        Inl e \<Rightarrow> Inl e
      | Inr r \<Rightarrow> (case lerp_ints rest p of
                   Inl e \<Rightarrow> Inl e
                 | Inr vs \<Rightarrow> Inr (I r # vs)))"

fun lerp_floats :: "(num \<times> num) list \<Rightarrow> pyfloat \<Rightarrow> error + num list" where
  "lerp_floats [] p = Inr []"
| "lerp_floats ((i, j) # rest) p =
     (case (if i = N then Inr N else map_sum id F (lerp i j p)) of
        Inl e \<Rightarrow> Inl e
      | Inr v \<Rightarrow> (case lerp_floats rest p of
                   Inl e \<Rightarrow> Inl e
                 | Inr vs \<Rightarrow> Inr (v # vs)))"

text \<open>
  The \<open>match start_value\<close> statement, in the order of its cases.  \<open>Inr None\<close>: no case
  matches, and \<open>value\<close> keeps what it was bound to before.  A target that is not a
  sequence cannot be zipped, and a sequence cannot be multiplied by the float \<open>p\<close>.
\<close>

fun interpolate :: "pyval \<Rightarrow> pyval \<Rightarrow> pyfloat \<Rightarrow> error + pyval option" where
  "interpolate (Seq (I i # rest)) target p =
     (case target of
        Scalar _ \<Rightarrow> Inl TypeError
      | Seq ts \<Rightarrow> map_sum id (\<lambda>vs. Some (Seq vs)) (lerp_ints (zip (I i # rest) ts) p))"
| "interpolate (Scalar (I i)) target p =
     (case target of
        Seq _ \<Rightarrow> Inl TypeError
      | Scalar t \<Rightarrow>
          map_sum id (\<lambda>r. Some (Scalar (I r))) (bind_err (lerp (I i) t p) round_float))"
| "interpolate (Seq (n # rest)) target p =
     (case target of
        Scalar _ \<Rightarrow> Inl TypeError
      | Seq ts \<Rightarrow> map_sum id (\<lambda>vs. Some (Seq vs)) (lerp_floats (zip (n # rest) ts) p))"
| "interpolate (Scalar (F x)) target p =
     (case target of
        Seq _ \<Rightarrow> Inl TypeError
      | Scalar t \<Rightarrow> map_sum id (\<lambda>y. Some (Scalar (F y))) (lerp (F x) t p))"
| "interpolate _ target p = Inr None"

text \<open>
  \<open>getattr\<close> and \<open>setattr\<close> go through whatever properties the class of the widget
  defines, so both are given: \<open>getattr st attr\<close> reads an attribute of the widget in the
  state \<open>st\<close> (\<open>None\<close>: AttributeError), \<open>setattr st attr v\<close> runs the setter, which
  returns the next state or raises.  A callback returns normally and leaves the widget
  as it is.  The effects of a run are logged in order; \<open>SetAttr\<close> is the call of
  \<open>setattr\<close>, logged also when it raises.
\<close>

datatype effect = OnStart | SetAttr string pyval | OnProgress | Sleep | OnComplete

text \<open>
  The \<open>for start_value, (prop, target) in zip(start_values, properties.items())\<close> loop
  of one tick.  It returns the effects performed and either the error raised or the
  binding of the local \<open>value\<close> afterwards (\<open>None\<close> while unbound: \<open>setattr\<close> then
  raises NameError) with the state reached.
\<close>

fun tick :: "('st \<Rightarrow> string \<Rightarrow> pyval \<Rightarrow> error + 'st) \<Rightarrow> pyfloat
    \<Rightarrow> (pyval \<times> string \<times> pyval) list \<Rightarrow> pyval option \<Rightarrow> 'st
    \<Rightarrow> effect list \<times> (error + pyval option \<times> 'st)" where
  "tick setattr p [] val st = ([], Inr (val, st))"
| "tick setattr p ((start_value, attr, target) # rest) val st =
     (case interpolate start_value target p of
        Inl e \<Rightarrow> ([], Inl e)
      | Inr m \<Rightarrow>
          (case (case m of None \<Rightarrow> val | Some v \<Rightarrow> Some v) of
             None \<Rightarrow> ([], Inl NameError)
           | Some v \<Rightarrow>
               (case setattr st attr v of
                  Inl e \<Rightarrow> ([SetAttr attr v], Inl e)
                | Inr st' \<Rightarrow>
                    let (effs, r) = tick setattr p rest (Some v) st'
                    in (SetAttr attr v # effs, r))))"

text \<open>\<open>1 - (end_time - current_time) / duration\<close>.\<close>

definition progress :: "pyfloat \<Rightarrow> pyfloat \<Rightarrow> pyfloat \<Rightarrow> error + pyfloat" where
  "progress end_time current_time duration =
     bind_err (fdiv (fsub end_time current_time) duration) (\<lambda>q. Inr (fsub (Finite 1) q))"

text \<open>
  The \<open>while (current_time := monotonic()) < end_time\<close> loop over the successive
  readings of the clock.  \<open>None\<close>: the readings given end before the loop does.
  Otherwise the effects, and the state at the end of the loop or the error raised.
\<close>

fun tween_loop :: "('st \<Rightarrow> string \<Rightarrow> pyval \<Rightarrow> error + 'st) \<Rightarrow> pyfloat \<Rightarrow> pyfloat
    \<Rightarrow> (pyfloat \<Rightarrow> pyfloat) \<Rightarrow> bool \<Rightarrow> (pyval \<times> string \<times> pyval) list \<Rightarrow> pyval option \<Rightarrow> 'st
    \<Rightarrow> pyfloat list \<Rightarrow> (effect list \<times> (error + 'st)) option" where
  "tween_loop setattr end_time duration easing_function on_progress items val st [] = None"
| "tween_loop setattr end_time duration easing_function on_progress items val st
     (current_time # clock) =
     (if float_lt current_time end_time then
        case progress end_time current_time duration of
          Inl e \<Rightarrow> Some ([], Inl e)
        | Inr q \<Rightarrow>
            (case tick setattr (easing_function q) items val st of
               (effs, Inl e) \<Rightarrow> Some (effs, Inl e)
             | (effs, Inr (val', st')) \<Rightarrow>
                 let effs' = effs @ (if on_progress then [OnProgress] else []) @ [Sleep] in
                 map_option (\<lambda>(more, out). (effs' @ more, out))
                   (tween_loop setattr end_time duration easing_function on_progress
                      items val' st' clock))
      else Some ([], Inr st))"

text \<open>\<open>tuple(getattr(self, attr) for attr in properties)\<close>: a missing attribute raises.\<close>

fun start_values :: "(string \<Rightarrow> pyval option) \<Rightarrow> string list \<Rightarrow> error + pyval list" where
  "start_values getattr [] = Inr []"
| "start_values getattr (attr # rest) =
     (case getattr attr of
        None \<Rightarrow> Inl AttributeError
      | Some v \<Rightarrow> map_sum id ((#) v) (start_values getattr rest))"

text \<open>The final \<open>for prop, target in properties.items(): setattr(self, prop, target)\<close>.\<close>

fun set_targets :: "('st \<Rightarrow> string \<Rightarrow> pyval \<Rightarrow> error + 'st) \<Rightarrow> (string \<times> pyval) list \<Rightarrow> 'st
    \<Rightarrow> effect list \<times> (error + 'st)" where
  "set_targets setattr [] st = ([], Inr st)"
| "set_targets setattr ((attr, target) # rest) st =
     (case setattr st attr target of
        Inl e \<Rightarrow> ([SetAttr attr target], Inl e)
      | Inr st' \<Rightarrow>
          let (effs, r) = set_targets setattr rest st' in (SetAttr attr target # effs, r))"

text \<open>
  \<open>tween\<close>: \<open>st\<close> is the widget when the coroutine starts, \<open>now\<close> the first reading of
  \<open>monotonic()\<close> and \<open>clock\<close> the later ones; the three callbacks are given by whether
  they are not \<open>None\<close>; \<open>properties\<close> are the keyword arguments in order.  The result
  is the sequence of effects and the widget at the end, or the error raised.
\<close>

definition tween :: "('st \<Rightarrow> string \<Rightarrow> pyval option) \<Rightarrow> ('st \<Rightarrow> string \<Rightarrow> pyval \<Rightarrow> error + 'st) \<Rightarrow> 'st
    \<Rightarrow> pyfloat \<Rightarrow> (pyfloat \<Rightarrow> pyfloat) \<Rightarrow> bool \<Rightarrow> bool \<Rightarrow> bool
    \<Rightarrow> (string \<times> pyval) list \<Rightarrow> pyfloat \<Rightarrow> pyfloat list
    \<Rightarrow> (effect list \<times> (error + 'st)) option" where
  "tween getattr setattr st duration easing_function on_start on_progress on_complete
     properties now clock =
     (let end_time = fadd now duration in
      case start_values (getattr st) (map fst properties) of
        Inl e \<Rightarrow> Some ([], Inl e)
      | Inr svs \<Rightarrow>
          let started = (if on_start then [OnStart] else []) in
          case tween_loop setattr end_time duration easing_function on_progress
                 (zip svs properties) None st clock of
            None \<Rightarrow> None
          | Some (effs, Inl e) \<Rightarrow> Some (started @ effs, Inl e)
          | Some (effs, Inr st1) \<Rightarrow>
              (case set_targets setattr properties st1 of
                 (effs2, Inl e) \<Rightarrow> Some (started @ effs @ effs2, Inl e)
               | (effs2, Inr st2) \<Rightarrow>
                   Some (started @ effs @ effs2
                           @ (if on_complete then [OnComplete] else []), Inr st2)))"

text \<open>
  The start values and targets the docstring admits, with matching shapes and numbers
  that floats can carry: an int that converts to a float exactly, or a float that is
  a double and not NaN, with a finite number as target; a sequence of such ints, or of
  such floats and \<open>None\<close>, with a target sequence of the same length that has a finite
  number wherever the start has a number.
\<close>

definition exact_int :: "int \<Rightarrow> bool" where
  "exact_int i = (fl (of_int i) = Finite (of_int i))"

fun is_number :: "pyfloat \<Rightarrow> bool" where
  "is_number (Finite x) = (fl x = Finite x)"
| "is_number NaN = False"
| "is_number _ = True"

fun finite_num :: "num \<Rightarrow> bool" where
  "finite_num (I j) = (case float_of_int j of Inl _ \<Rightarrow> False | Inr _ \<Rightarrow> True)"
| "finite_num (F (Finite y)) = True"
| "finite_num _ = False"

definition int_pair :: "num \<times> num \<Rightarrow> bool" where
  "int_pair ab = (case fst ab of I i \<Rightarrow> exact_int i \<and> finite_num (snd ab) | _ \<Rightarrow> False)"

definition float_pair :: "num \<times> num \<Rightarrow> bool" where
  "float_pair ab =
     (case fst ab of
        I _ \<Rightarrow> False
      | F x \<Rightarrow> is_number x \<and> finite_num (snd ab)
      | N \<Rightarrow> True)"

fun compatible :: "pyval \<Rightarrow> pyval \<Rightarrow> bool" where
  "compatible (Scalar (I i)) (Scalar t) = (exact_int i \<and> finite_num t)"
| "compatible (Scalar (F x)) (Scalar t) = (is_number x \<and> finite_num t)"
| "compatible (Seq (I i # rest)) (Seq ts) =
     (length (I i # rest) = length ts \<and> list_all int_pair (zip (I i # rest) ts))"
| "compatible (Seq (n # rest)) (Seq ts) =
     (length (n # rest) = length ts \<and> list_all float_pair (zip (n # rest) ts))"
| "compatible _ _ = False"

section \<open>Graphics (graphics.py)\<close>

text \<open>
  A color channel is a byte.  A cell of the screen has its character (a code point) and
  the two colors of the colors array; \<open>HALF_BLOCK\<close> is the upper half block U+2580.
\<close>

type_synonym rgb = "8 word \<times> 8 word \<times> 8 word"

type_synonym rgba = "8 word \<times> 8 word \<times> 8 word \<times> 8 word"

record cell =
  char :: nat
  foreground :: rgb
  background :: rgb

type_synonym canvas = "int \<times> int \<Rightarrow> cell"

definition HALF_BLOCK :: nat where
  "HALF_BLOCK = 0x2580"

record graphics = attrs +
  default_color :: rgba
  alpha :: pyfloat
  interpolation :: string
  texture :: "int \<times> int \<Rightarrow> rgba"

text \<open>
  Modelled from the spec: \<open>clamp\<close> as above, on floats, where its two tests
  \<open>value < min\<close> and \<open>value > max\<close> are comparisons of floats.
\<close>

definition clamp_float :: "pyfloat \<Rightarrow> pyfloat option \<Rightarrow> pyfloat option \<Rightarrow> pyfloat" where
  "clamp_float v lo hi =
     (if lo \<noteq> None \<and> float_lt v (the lo) then the lo
      else if hi \<noteq> None \<and> float_lt (the hi) v then the hi
      else v)"

text \<open>
  The \<open>alpha\<close> setter: \<open>self._alpha = clamp(float(alpha), 0.0, 1.0)\<close>, for an argument
  that is a float.
\<close>

definition set_alpha :: "graphics \<Rightarrow> pyfloat \<Rightarrow> graphics" where
  "set_alpha g x = g\<lparr>alpha := clamp_float x (Some (Finite 0)) (Some (Finite 1))\<rparr>"

text \<open>
  Writing a float into a byte array with \<open>casting="unsafe"\<close>: the fraction is dropped;
  a value outside the byte range is taken modulo 256 here.
\<close>

definition to_uint8 :: "real \<Rightarrow> 8 word" where
  "to_uint8 x = word_of_int (py_int x)"

text \<open>
  One channel of the blend: \<open>buffer = texel - existing\<close> in floats, \<open>buffer *= texel alpha\<close>,
  \<open>buffer *= norm_alpha\<close>, then \<open>buffer + existing\<close> written back as a byte.
\<close>

definition blend_channel :: "8 word \<Rightarrow> 8 word \<Rightarrow> real \<Rightarrow> 8 word \<Rightarrow> 8 word" where
  "blend_channel texel texel_alpha norm_alpha existing =
     to_uint8 (((of_int (uint texel) - of_int (uint existing)) * of_int (uint texel_alpha))
                 * norm_alpha + of_int (uint existing))"

definition blend_rgb :: "rgba \<Rightarrow> real \<Rightarrow> rgb \<Rightarrow> rgb" where
  "blend_rgb texel norm_alpha existing =
     (case (texel, existing) of
        ((tr, tg, tb, ta), (r, g, b)) \<Rightarrow>
          (blend_channel tr ta norm_alpha r,
           blend_channel tg ta norm_alpha g,
           blend_channel tb ta norm_alpha b))"

definition norm_alpha :: "real list \<Rightarrow> real \<Rightarrow> real" where
  "norm_alpha ancestor_alphas a = prod_list ancestor_alphas * a / 255"

text \<open>
  Modelled from the spec: \<open>Region.rects()\<close> and \<open>Rect.to_slices\<close> (classes \<open>Region\<close> and
  \<open>Rect\<close> are not among the sources): a region is a set of axis-aligned rectangles over
  the integer grid.  A rectangle is (y, x, height, width) in screen coordinates; its
  cells are the destination, and the same cells moved by the absolute position of the
  gadget are the source in the texture, where rows \<open>2 * i\<close> and \<open>2 * i + 1\<close> belong to
  the screen row \<open>i\<close>.
\<close>

type_synonym rect = "int \<times> int \<times> int \<times> int"

definition in_rect :: "rect \<Rightarrow> int \<times> int \<Rightarrow> bool" where
  "in_rect r p =
     (case (r, p) of
        ((y, x, h, w), (i, j)) \<Rightarrow> y \<le> i \<and> i < y + h \<and> x \<le> j \<and> j < x + w)"

definition even_rows :: "graphics \<Rightarrow> int \<times> int \<Rightarrow> int \<times> int \<Rightarrow> rgba" where
  "even_rows g abs_pos p =
     (case (abs_pos, p) of
        ((ay, ax), (i, j)) \<Rightarrow> texture g (2 * (i - ay), j - ax))"

definition odd_rows :: "graphics \<Rightarrow> int \<times> int \<Rightarrow> int \<times> int \<Rightarrow> rgba" where
  "odd_rows g abs_pos p =
     (case (abs_pos, p) of
        ((ay, ax), (i, j)) \<Rightarrow> texture g (2 * (i - ay) + 1, j - ax))"

text \<open>The body of the transparent branch of \<open>Graphics.render\<close> at one cell.\<close>

definition blend_cell :: "real \<Rightarrow> rgba \<Rightarrow> rgba \<Rightarrow> cell \<Rightarrow> cell" where
  "blend_cell na even_texel odd_texel c =
     (let fg1 = (if char c \<noteq> HALF_BLOCK then background c else foreground c) in
      \<lparr> char = HALF_BLOCK,
        foreground = blend_rgb even_texel na fg1,
        background = blend_rgb odd_texel na (background c) \<rparr>)"

text \<open>
  The same at one cell when the alpha of the gadget is not finite (the setter stores
  NaN as it is): the buffers are NaN or infinite, and the bytes that the unsafe cast
  then writes are left to the platform by numpy; they are 0 here.
\<close>

definition blend_cell_nan :: "cell \<Rightarrow> cell" where
  "blend_cell_nan c = \<lparr> char = HALF_BLOCK, foreground = (0, 0, 0), background = (0, 0, 0) \<rparr>"

text \<open>The body of the other branch at one cell: the texels overwrite the colors.\<close>

definition overwrite_cell :: "rgba \<Rightarrow> rgba \<Rightarrow> cell \<Rightarrow> cell" where
  "overwrite_cell even_texel odd_texel c =
     (case (even_texel, odd_texel) of
        ((er, eg, eb, ea), (orr, og, ob, oa)) \<Rightarrow>
          \<lparr> char = HALF_BLOCK, foreground = (er, eg, eb), background = (orr, og, ob) \<rparr>)"

text \<open>
  \<open>Graphics.render\<close>: for every rectangle of the region in turn, every cell of the
  rectangle is updated; the array operations act on each cell independently.
  \<open>abs_pos\<close> is \<open>self.absolute_pos\<close>, \<open>ancestor_alphas\<close> the alphas of the ancestors
  that are \<open>Graphics\<close> (numbers), \<open>rects\<close> is \<open>self.region.rects()\<close>.  The arithmetic
  of the blend is exact on finite values.
\<close>

definition render_rect :: "graphics \<Rightarrow> int \<times> int \<Rightarrow> real list \<Rightarrow> rect \<Rightarrow> canvas \<Rightarrow> canvas" where
  "render_rect g abs_pos ancestor_alphas r cv =
     (\<lambda>p. if in_rect r p then
             (if is_transparent g
              then (case alpha g of
                      Finite a \<Rightarrow>
                        blend_cell (norm_alpha ancestor_alphas a)
                          (even_rows g abs_pos p) (odd_rows g abs_pos p) (cv p)
                    | _ \<Rightarrow> blend_cell_nan (cv p))
              else overwrite_cell (even_rows g abs_pos p) (odd_rows g abs_pos p) (cv p))
           else cv p)"

definition render_graphics :: "graphics \<Rightarrow> int \<times> int \<Rightarrow> real list \<Rightarrow> rect list \<Rightarrow> canvas \<Rightarrow> canvas" where
  "render_graphics g abs_pos ancestor_alphas rects cv =
     fold (render_rect g abs_pos ancestor_alphas) rects cv"


text \<open>\<open>Graphics.__init__\<close> for a gadget of size (1, 1): the alpha is assigned through the setter.\<close>

definition init_graphics :: "nat \<Rightarrow> bool \<Rightarrow> rgba \<Rightarrow> pyfloat \<Rightarrow> string \<Rightarrow> graphics" where
  "init_graphics i transparent color a interp =
     set_alpha
       \<lparr> ident = i, w_size = (1, 1), w_pos = (0, 0), size_hint = (N, N),
         min_height = None, max_height = None, min_width = None, max_width = None,
         pos_hint = (N, N), anchor = TOP_LEFT,
         is_transparent = transparent, is_visible = True, is_enabled = True,
         background_char = None, background_color_pair = None,
         default_color = color, alpha = Finite 1, interpolation = interp,
         texture = (\<lambda>p. color) \<rparr> a"

section \<open>Example inputs\<close>

text \<open>
  A parent 0 with the children A = 1 and B = 2 (B added last), B with a child 3 and
  with a given \<open>is_enabled\<close>; click handlers that return \<open>True\<close> for the listed widgets.
\<close>

definition tree_AB :: "bool \<Rightarrow> widget" where
  "tree_AB b_enabled =
     Widget (attrs (init_default 0 (10, 10)))
       [init_default 1 (10, 10),
        Widget ((attrs (init_default 2 (10, 10)))\<lparr>is_enabled := b_enabled\<rparr>)
          [init_default 3 (10, 10)]]"

definition handled_by :: "nat list \<Rightarrow> (unit, unit, unit) handlers" where
  "handled_by ids =
     \<lparr> on_press = (\<lambda>i e. None),
       on_click = (\<lambda>i e. if i \<in> set ids then Some True else None),
       on_double_click = (\<lambda>i e. None),
       on_triple_click = (\<lambda>i e. None),
       on_paste = (\<lambda>i e. Some False) \<rparr>"

text \<open>A (2, 2) widget at (0, 0) with a (2, 2) child at (0, 0).\<close>

definition stacked :: widget where
  "stacked = Widget (attrs (init_default 0 (2, 2))) [init_default 1 (2, 2)]"

text \<open>
  A widget without parent seen through its attributes, for \<open>tween\<close>, with the setters of
  \<open>pos\<close> (\<open>Point(*point)\<close>, which takes exactly two components), of \<open>size_hint\<close>
  (\<open>h, w = size_hint\<close>, then \<open>max(float(h), 0.0)\<close> for each component that is not
  \<open>None\<close>) and of \<open>pos_hint\<close> (\<open>h, w = pos_hint\<close>, then \<open>float(h)\<close>).  Every other name
  stands for a plain attribute, one without a setter.
\<close>

type_synonym store = "string \<Rightarrow> pyval option"

definition example_getattr :: "store \<Rightarrow> string \<Rightarrow> pyval option" where
  "example_getattr st attr = st attr"

fun pos_hint_component :: "num \<Rightarrow> error + num" where
  "pos_hint_component N = Inr N"
| "pos_hint_component (I i) = map_sum id F (float_of_int i)"
| "pos_hint_component (F x) = Inr (F x)"

definition size_hint_component :: "num \<Rightarrow> error + num" where
  "size_hint_component n =
     bind_err (pos_hint_component n)
       (\<lambda>c. Inr (case c of F x \<Rightarrow> F (if float_lt x (Finite 0) then Finite 0 else x) | _ \<Rightarrow> c))"

definition example_setattr :: "store \<Rightarrow> string \<Rightarrow> pyval \<Rightarrow> error + store" where
  "example_setattr st attr v =
     (if attr = ''pos'' then
        (case v of Seq [y, x] \<Rightarrow> Inr (st(attr \<mapsto> v)) | _ \<Rightarrow> Inl TypeError)
      else if attr = ''size_hint'' \<or> attr = ''pos_hint'' then
        (case v of
           Seq [h, w] \<Rightarrow>
             (let component = (if attr = ''size_hint'' then size_hint_component
                               else pos_hint_component)
              in bind_err (component h) (\<lambda>h'. bind_err (component w) (\<lambda>w'.
                   Inr (st(attr \<mapsto> Seq [h', w'])))))
         | Seq _ \<Rightarrow> Inl ValueError
         | Scalar _ \<Rightarrow> Inl TypeError)
      else Inr (st(attr \<mapsto> v)))"

text \<open>\<open>pos\<close> is (0, 0), \<open>size_hint\<close> is (0.5, None), and \<open>pos_hint\<close> is (0, 0.5) as
  \<open>Widget(pos_hint=(0, .5))\<close> stores it.\<close>

definition example_store :: store where
  "example_store =
     [''pos'' \<mapsto> Seq [I 0, I 0], ''size_hint'' \<mapsto> Seq [F (Finite (1 / 2)), N],
      ''pos_hint'' \<mapsto> Seq [I 0, F (Finite (1 / 2))]]"

text \<open>
  A screen of spaces, white on black, and a transparent one-cell gadget with an opaque
  texel color.
\<close>

definition example_canvas :: canvas where
  "example_canvas = (\<lambda>p. \<lparr> char = 0x20, foreground = (255, 255, 255), background = (0, 0, 0) \<rparr>)"

definition example_graphics :: "real \<Rightarrow> graphics" where
  "example_graphics a = init_graphics 0 True (10, 20, 30, 255) (Finite a) ''linear''"

section \<open>Properties of the geometry\<close>

lemmas float_eval =
  fl_def flog2_def pow2_def py_round_def py_int_def bit_length.simps float_of_int_def
  mul_int_float_def mul_float_int_def round_float_def int_float_def bind_err_def Let_def

lemmas geometry_eval =
  init_def init_default_def height_def width_def top_w_def left_def clamp_def
  apply_pos_hint_def set_top_def set_left_def set_pos_def anchor_offset_def
  center_def

lemma bind_err_Inr [simp]: "bind_err (Inr x) f = f x"
  by (simp add: bind_err_def)

lemma bind_err_Inl [simp]: "bind_err (Inl e) f = Inl e"
  by (simp add: bind_err_def)

lemma bind_err_eq_Inr:
  "bind_err m f = Inr y \<longleftrightarrow> (\<exists>x. m = Inr x \<and> f x = Inr y)"
  by (cases m) simp_all

lemma clamp_lower: "clamp v (Some l) None = max l v"
  by (auto simp add: clamp_def max_def)

lemma anchor_offset_children: "anchor_offset (Widget a cs) = anchor_offset (Widget a [])"
  by (simp add: anchor_offset_def height_def width_def center_def split: anchor.splits)

lemma apply_pos_hint_eq:
  "apply_pos_hint ps (Widget a cs) =
     bind_err (resolved_pos ps a) (\<lambda>p. Inr (Widget (a\<lparr>w_pos := p\<rparr>) cs))"
  by (cases ps; cases "pos_hint a"; cases "anchor_offset (Widget a [])")
     (auto simp: apply_pos_hint_def resolved_pos_def hinted_coord_def set_top_def
        set_left_def set_pos_def top_w_def left_def anchor_offset_children [of a cs]
        bind_err_def split: sum.splits)

lemma update_geometry_eq:
  "update_geometry (Some ps) (Widget a cs) =
     bind_err (resolved_size ps a) (\<lambda>sz.
     bind_err (if hinted a then map_err (update_geometry (Some sz)) cs else Inr cs) (\<lambda>cs'.
     bind_err (resolved_pos ps (a\<lparr>w_size := sz\<rparr>)) (\<lambda>p.
     Inr (Widget (a\<lparr>w_size := sz, w_pos := p\<rparr>) cs'))))"
proof (cases "hinted a")
  case False
  then show ?thesis
    by (cases ps; cases "size_hint a")
       (simp add: resolved_size_def hinted_def apply_pos_hint_eq)
next
  case True
  obtain h w where ps: "ps = (h, w)" by (cases ps)
  obtain h_hint w_hint where sh: "size_hint a = (h_hint, w_hint)" by (cases "size_hint a")
  show ?thesis
  proof (cases "hinted_dim (fst (w_size a)) h_hint h (min_height a) (max_height a)")
    case (Inl e)
    then show ?thesis
      using True
      by (auto simp: ps sh resolved_size_def hinted_def hinted_dim_def split: option.splits)
  next
    case hd: (Inr height')
    show ?thesis
    proof (cases "hinted_dim (snd (w_size a)) w_hint w (min_width a) (max_width a)")
      case (Inl e)
      then show ?thesis
        using True hd
        by (auto simp: ps sh resolved_size_def hinted_def hinted_dim_def split: if_splits)
    next
      case wd: (Inr width')
      have "update_geometry (Some ps) (Widget a cs) =
              bind_err (set_size (Widget a cs) (height', width')) (apply_pos_hint (h, w))"
        using True hd wd
        by (auto simp: ps sh hinted_def hinted_dim_def simp del: set_size.simps
              split: if_splits)
      also have "\<dots> =
          bind_err (map_err (update_geometry (Some (max 1 height', max 1 width'))) cs) (\<lambda>cs'.
          bind_err (resolved_pos ps (a\<lparr>w_size := (max 1 height', max 1 width')\<rparr>)) (\<lambda>p.
          Inr (Widget (a\<lparr>w_size := (max 1 height', max 1 width'), w_pos := p\<rparr>) cs')))"
        by (cases "map_err (update_geometry (Some (max 1 height', max 1 width'))) cs")
           (simp_all add: clamp_lower apply_pos_hint_eq ps)
      finally show ?thesis
        using True hd wd by (simp add: resolved_size_def ps sh)
    qed
  qed
qed

lemma hinted_dim_idem:
  "hinted_dim c hint pdim lo hi = Inr d \<Longrightarrow> hinted_dim (max 1 d) hint pdim lo hi
     = Inr (if hint = N then max 1 d else d)"
  by (cases "hint = N") (simp_all add: hinted_dim_def)

lemma resolved_size_idem:
  assumes "resolved_size ps a = Inr sz"
  shows "resolved_size ps (a\<lparr>w_size := sz, w_pos := p\<rparr>) = Inr sz"
proof (cases "hinted a")
  case False
  with assms show ?thesis by (simp add: resolved_size_def hinted_def)
next
  case True
  with assms obtain height' width' where
    hd: "hinted_dim (fst (w_size a)) (fst (size_hint a)) (fst ps) (min_height a) (max_height a)
           = Inr height'"
    and wd: "hinted_dim (snd (w_size a)) (snd (size_hint a)) (snd ps) (min_width a) (max_width a)
           = Inr width'"
    and sz: "sz = (max 1 height', max 1 width')"
    by (auto simp: resolved_size_def bind_err_eq_Inr)
  have "hinted (a\<lparr>w_size := sz, w_pos := p\<rparr>)"
    using True by (simp add: hinted_def)
  then show ?thesis
    using hd wd
    by (cases "fst (size_hint a) = N"; cases "snd (size_hint a) = N")
       (simp_all add: resolved_size_def sz hinted_dim_def)
qed

lemma resolved_pos_idem:
  assumes "resolved_pos ps (a\<lparr>w_size := s\<rparr>) = Inr p"
  shows "resolved_pos ps (a\<lparr>w_size := s, w_pos := p\<rparr>) = Inr p"
proof -
  have off: "anchor_offset (Widget (a\<lparr>w_size := s, w_pos := p\<rparr>) [])
               = anchor_offset (Widget (a\<lparr>w_size := s\<rparr>) [])"
    by (simp add: anchor_offset_def height_def width_def center_def split: anchor.splits)
  from assms show ?thesis
    by (cases "fst (pos_hint a) = N"; cases "snd (pos_hint a) = N")
       (auto simp: resolved_pos_def off hinted_coord_def bind_err_eq_Inr)
qed

lemma map_err_idem:
  assumes "\<And>c c'. c \<in> set cs \<Longrightarrow> f c = Inr c' \<Longrightarrow> f c' = Inr c'"
    and "map_err f cs = Inr cs'"
  shows "map_err f cs' = Inr cs'"
  using assms
proof (induction cs arbitrary: cs')
  case Nil
  then show ?case by simp
next
  case (Cons c cs)
  from Cons.prems(2) obtain d ds where d: "f c = Inr d" and ds: "map_err f cs = Inr ds"
    and cs': "cs' = d # ds"
    by (auto simp: bind_err_eq_Inr)
  have "f d = Inr d" using Cons.prems(1) [of c d] d by simp
  moreover have "map_err f ds = Inr ds"
  proof (rule Cons.IH [OF _ ds])
    fix x x' assume "x \<in> set cs" "f x = Inr x'"
    then show "f x' = Inr x'" using Cons.prems(1) [of x x'] by simp
  qed
  ultimately show ?case by (simp add: cs')
qed

lemma update_geometry_fixed:
  "update_geometry (Some ps) wd = Inr wd' \<Longrightarrow> update_geometry (Some ps) wd' = Inr wd'"
proof (induction wd arbitrary: ps wd')
  case (Widget a cs)
  from Widget.prems obtain sz cs' p where
    sz: "resolved_size ps a = Inr sz"
    and cs': "(if hinted a then map_err (update_geometry (Some sz)) cs else Inr cs) = Inr cs'"
    and p: "resolved_pos ps (a\<lparr>w_size := sz\<rparr>) = Inr p"
    and wd': "wd' = Widget (a\<lparr>w_size := sz, w_pos := p\<rparr>) cs'"
    unfolding update_geometry_eq by (auto simp: bind_err_eq_Inr)
  let ?a1 = "a\<lparr>w_size := sz, w_pos := p\<rparr>"
  have h: "hinted ?a1 = hinted a"
    by (simp add: hinted_def)
  have s: "resolved_size ps ?a1 = Inr sz"
    by (rule resolved_size_idem [OF sz])
  have eq: "?a1\<lparr>w_size := sz\<rparr> = ?a1"
    by simp
  have p1: "resolved_pos ps (?a1\<lparr>w_size := sz\<rparr>) = Inr p"
    unfolding eq by (rule resolved_pos_idem [OF p])
  have c: "(if hinted a then map_err (update_geometry (Some sz)) cs' else Inr cs') = Inr cs'"
  proof (cases "hinted a")
    case True
    with cs' have "map_err (update_geometry (Some sz)) cs = Inr cs'" by simp
    then have "map_err (update_geometry (Some sz)) cs' = Inr cs'"
      by (rule map_err_idem [rotated]) (rule Widget.IH)
    with True show ?thesis by simp
  next
    case False
    then show ?thesis by simp
  qed
  show ?case
    unfolding wd' update_geometry_eq h s using c p1 by simp
qed

text \<open>The \<open>size\<close> setter leaves both dimensions at least 1, whatever it is given.\<close>

lemma set_size_at_least_1:
  "set_size wd sz = Inr wd' \<Longrightarrow> 1 \<le> height wd' \<and> 1 \<le> width wd'"
  by (cases wd; cases sz) (auto simp: height_def width_def clamp_lower Let_def bind_err_eq_Inr)

text \<open>
  The products are those of doubles: the hint written \<open>0.7\<close> in a parent of height 10
  gives the top \<open>int(7.0) = 7\<close>, the hint \<open>0.29\<close> in a parent of height 100 gives
  \<open>int(28.999999999999996) = 28\<close>, the height hint \<open>0.35\<close> in a parent of height 10 gives
  \<open>round(3.5) = 4\<close> and \<open>0.1\<close> in a parent of height 25 gives \<open>round(2.5) = 2\<close>.
\<close>

lemma double_products:
  "bind_err (mul_int_float 10 (fl (7 / 10))) int_float = Inr 7"
  "bind_err (mul_int_float 100 (fl (29 / 100))) int_float = Inr 28"
  "bind_err (mul_float_int (fl (35 / 100)) 10) round_float = Inr 4"
  "bind_err (mul_float_int (fl (1 / 10)) 25) round_float = Inr 2"
  by (simp_all add: float_eval)

text \<open>
  With an int hint the product is exact, with a float hint the int is converted first:
  a parent of height \<open>2 ^ 53 + 1\<close> resolves the hint \<open>1\<close> to that height and the hint
  \<open>1.0\<close> to \<open>2 ^ 53\<close>.
\<close>

lemma int_hint_exact:
  "round_times (I 1) (2 ^ 53 + 1) = Inr (2 ^ 53 + 1)"
  "round_times (F (Finite 1)) (2 ^ 53 + 1) = Inr (2 ^ 53)"
  by (simp_all add: float_eval)

text \<open>A hint that is NaN or infinite, or a product that overflows, raises.\<close>

lemma double_products_raise:
  "bind_err (mul_int_float 10 NaN) int_float = Inl ValueError"
  "bind_err (mul_int_float 10 PosInf) int_float = Inl OverflowError"
  "bind_err (mul_float_int (fl (2 ^ 1023)) 2) round_float = Inl OverflowError"
  "float_of_int (2 ^ 1024) = Inl OverflowError"
  by (simp_all add: float_eval)

text \<open>
  C2, at the input where the code departs from it: \<open>Widget(size=(0, 0))\<close>.  The
  constructor stores the size as given, so the new widget has height 0 and width 0;
  only the \<open>size\<close> setter clamps.
\<close>

theorem init_size_not_clamped:
  "height (init_default 0 (0, 0)) = 0 \<and> width (init_default 0 (0, 0)) = 0"
  by (simp add: init_default_def init_def height_def width_def)

text \<open>
  C5 (as amended): for a widget with a parent of size \<open>(h, w)\<close> whose resolution does
  not raise, each hinted coordinate is the product of the parent dimension and the hint
  (that of two doubles for a float hint, the exact one for an int hint), cut towards
  zero (the floor only when the product is not negative), minus the anchor offset of
  the table below, taken from the widget's own resolved size; a coordinate without a
  hint keeps its value.
\<close>

theorem pos_hint_resolution:
  assumes "pos_hint (attrs wd) = (y_hint, x_hint)"
    and "update_geometry (Some (h, w)) wd = Inr wd'"
  shows "(let offset =
            (case anchor (attrs wd) of
               TOP_LEFT \<Rightarrow> (0, 0)
             | TOP_RIGHT \<Rightarrow> (0, width wd')
             | BOTTOM_LEFT \<Rightarrow> (height wd', 0)
             | BOTTOM_RIGHT \<Rightarrow> (height wd', width wd')
             | CENTER \<Rightarrow> (height wd' div 2, width wd' div 2)
             | TOP_CENTER \<Rightarrow> (0, width wd' div 2)
             | BOTTOM_CENTER \<Rightarrow> (height wd', width wd' div 2)
             | LEFT_CENTER \<Rightarrow> (height wd' div 2, 0)
             | RIGHT_CENTER \<Rightarrow> (height wd' div 2, width wd'))
          in
          (case y_hint of
             N \<Rightarrow> top_w wd' = top_w wd
           | I k \<Rightarrow> top_w wd' = h * k - fst offset
           | F yh \<Rightarrow> \<exists>fh x. float_of_int h = Inr fh \<and> fmul fh yh = Finite x
               \<and> top_w wd' = (if 0 \<le> x then \<lfloor>x\<rfloor> else \<lceil>x\<rceil>) - fst offset)
          \<and> (case x_hint of
               N \<Rightarrow> left wd' = left wd
             | I k \<Rightarrow> left wd' = w * k - snd offset
             | F xh \<Rightarrow> \<exists>fw x. float_of_int w = Inr fw \<and> fmul fw xh = Finite x
                 \<and> left wd' = (if 0 \<le> x then \<lfloor>x\<rfloor> else \<lceil>x\<rceil>) - snd offset))"
proof (cases wd)
  case (Widget a cs)
  from assms(2) obtain sz cs' p where
    p: "resolved_pos (h, w) (a\<lparr>w_size := sz\<rparr>) = Inr p"
    and wd': "wd' = Widget (a\<lparr>w_size := sz, w_pos := p\<rparr>) cs'"
    unfolding Widget update_geometry_eq by (auto simp: bind_err_eq_Inr)
  obtain t l where tl: "p = (t, l)" by (cases p)
  from p have t: "hinted_coord (fst (w_pos a)) y_hint h
                    (fst (anchor_offset (Widget (a\<lparr>w_size := sz\<rparr>) []))) = Inr t"
    and l: "hinted_coord (snd (w_pos a)) x_hint w
                    (snd (anchor_offset (Widget (a\<lparr>w_size := sz\<rparr>) []))) = Inr l"
    using assms(1) by (auto simp: resolved_pos_def Widget tl bind_err_eq_Inr)
  have coord: "(case hint of
             N \<Rightarrow> c' = c
           | I k \<Rightarrow> c' = d * k - off
           | F yh \<Rightarrow> \<exists>fh x. float_of_int d = Inr fh \<and> fmul fh yh = Finite x
               \<and> c' = (if 0 \<le> x then \<lfloor>x\<rfloor> else \<lceil>x\<rceil>) - off)"
    if hc: "hinted_coord c hint d off = Inr c'" for c hint d off c'
  proof (cases hint)
    case N
    with hc show ?thesis by (simp add: hinted_coord_def)
  next
    case (I k)
    with hc show ?thesis by (auto simp: hinted_coord_def)
  next
    case (F yh)
    with hc obtain fh t where fh: "float_of_int d = Inr fh"
      and t: "int_float (fmul fh yh) = Inr t" and c': "c' = t - off"
      by (auto simp: hinted_coord_def mul_int_float_def bind_err_eq_Inr)
    from t obtain x where x: "fmul fh yh = Finite x" "t = py_int x"
      by (cases "fmul fh yh") (simp_all add: int_float_def)
    have "float_of_int d = Inr fh \<and> fmul fh yh = Finite x
            \<and> c' = (if 0 \<le> x then \<lfloor>x\<rfloor> else \<lceil>x\<rceil>) - off"
      using fh x c' by (simp add: py_int_def)
    then show ?thesis unfolding F num.case by blast
  qed
  have tab: "(case anchor (attrs wd) of
               TOP_LEFT \<Rightarrow> (0, 0)
             | TOP_RIGHT \<Rightarrow> (0, width wd')
             | BOTTOM_LEFT \<Rightarrow> (height wd', 0)
             | BOTTOM_RIGHT \<Rightarrow> (height wd', width wd')
             | CENTER \<Rightarrow> (height wd' div 2, width wd' div 2)
             | TOP_CENTER \<Rightarrow> (0, width wd' div 2)
             | BOTTOM_CENTER \<Rightarrow> (height wd', width wd' div 2)
             | LEFT_CENTER \<Rightarrow> (height wd' div 2, 0)
             | RIGHT_CENTER \<Rightarrow> (height wd' div 2, width wd'))
           = anchor_offset (Widget (a\<lparr>w_size := sz\<rparr>) [])"
    by (cases "anchor a")
       (simp_all add: Widget wd' anchor_offset_def height_def width_def center_def)
  have now: "top_w wd' = t" "left wd' = l"
    by (simp_all add: wd' tl top_w_def left_def)
  have before: "top_w wd = fst (w_pos a)" "left wd = snd (w_pos a)"
    by (simp_all add: Widget top_w_def left_def)
  show ?thesis
    unfolding Let_def tab now before
    by (rule conjI [OF coord [OF t] coord [OF l]])
qed

text \<open>
  The scenario of the spec: a (10, 10) widget anchored at its center with
  \<open>pos_hint = (0.5, 0.5)\<close> in a (20, 20) parent is placed at (5, 5).
\<close>

theorem pos_hint_resolution_witness:
  "map_sum id (\<lambda>wd'. w_pos (attrs wd')) (update_geometry (Some (20, 20))
      (init 0 (10, 10) (0, 0) (N, N) None None None None
         (F (Finite (1 / 2)), F (Finite (1 / 2))) CENTER False True True None None))
   = Inr (5, 5)"
proof -
  let ?wd = "init 0 (10, 10) (0, 0) (N, N) None None None None
         (F (Finite (1 / 2)), F (Finite (1 / 2))) CENTER False True True None None"
  obtain wd' where run: "update_geometry (Some (20, 20)) ?wd = Inr wd'"
    by (simp add: init_def geometry_eval float_eval)
  have "pos_hint (attrs ?wd) = (F (Finite (1 / 2)), F (Finite (1 / 2)))"
    by (simp add: init_def)
  from pos_hint_resolution [OF this run]
  have "top_w wd' = 5 \<and> left wd' = 5"
    using run by (auto simp: init_def geometry_eval float_eval)
  then show ?thesis
    by (simp add: run top_w_def left_def prod_eq_iff)
qed

text \<open>
  With the floor in place of the cut towards zero the statement fails: \<open>y_hint = -0.25\<close>
  in a parent of height 10 gives top \<open>int(-2.5) = -2\<close>, and the floor is \<open>-3\<close>.
\<close>

theorem pos_hint_resolution_counterexample:
  "map_sum id top_w (update_geometry (Some (10, 10))
      (init 0 (10, 10) (0, 0) (N, N) None None None None
         (F (Finite (- 1 / 4)), N) TOP_LEFT False True True None None)) = Inr (- 2)
   \<and> \<lfloor>(- 1 / 4) * 10 :: real\<rfloor> - 0 = (- 3 :: int)"
  by (simp add: geometry_eval float_eval)

text \<open>
  C6 (as amended): for a widget with a size hint set and a parent of size \<open>(h, w)\<close>
  whose resolution does not raise, each hinted dimension is the product of the hint and
  the parent dimension (that of two doubles for a float hint, the exact one for an int
  hint), rounded to the nearest int (ties to even), clamped to its bounds, an unset
  bound being no bound, and then raised to 1 if it is below; the dimension without a
  hint keeps its value, raised to 1 in the same way.
\<close>

theorem size_hint_resolution:
  assumes "size_hint (attrs wd) = (h_hint, w_hint)" and "h_hint \<noteq> N \<or> w_hint \<noteq> N"
    and "update_geometry (Some (h, w)) wd = Inr wd'"
  shows "(case h_hint of
            N \<Rightarrow> height wd' = max 1 (height wd)
          | I k \<Rightarrow> height wd' = max 1 (clamp (k * h)
                                        (min_height (attrs wd)) (max_height (attrs wd)))
          | F hh \<Rightarrow> \<exists>fh x. float_of_int h = Inr fh \<and> fmul hh fh = Finite x
              \<and> height wd' = max 1 (clamp (py_round x)
                                       (min_height (attrs wd)) (max_height (attrs wd))))
       \<and> (case w_hint of
            N \<Rightarrow> width wd' = max 1 (width wd)
          | I k \<Rightarrow> width wd' = max 1 (clamp (k * w)
                                       (min_width (attrs wd)) (max_width (attrs wd)))
          | F wh \<Rightarrow> \<exists>fw x. float_of_int w = Inr fw \<and> fmul wh fw = Finite x
              \<and> width wd' = max 1 (clamp (py_round x)
                                      (min_width (attrs wd)) (max_width (attrs wd))))"
proof (cases wd)
  case (Widget a cs)
  have hinted: "hinted a"
    using assms(1,2) by (simp add: hinted_def Widget)
  from assms(3) obtain sz cs' p where
    sz: "resolved_size (h, w) a = Inr sz"
    and wd': "wd' = Widget (a\<lparr>w_size := sz, w_pos := p\<rparr>) cs'"
    unfolding Widget update_geometry_eq by (auto simp: bind_err_eq_Inr)
  from sz hinted obtain height' width' where
    hd: "hinted_dim (fst (w_size a)) h_hint h (min_height a) (max_height a) = Inr height'"
    and wdim: "hinted_dim (snd (w_size a)) w_hint w (min_width a) (max_width a) = Inr width'"
    and sz': "sz = (max 1 height', max 1 width')"
    using assms(1) by (auto simp: resolved_size_def Widget bind_err_eq_Inr)
  have dim: "(case hint of
             N \<Rightarrow> max 1 d' = max 1 c
           | I k \<Rightarrow> max 1 d' = max 1 (clamp (k * d) lo hi)
           | F hh \<Rightarrow> \<exists>fd x. float_of_int d = Inr fd \<and> fmul hh fd = Finite x
               \<and> max 1 d' = max 1 (clamp (py_round x) lo hi))"
    if hd: "hinted_dim c hint d lo hi = Inr d'" for c hint d lo hi d'
  proof (cases hint)
    case N
    with hd show ?thesis by (simp add: hinted_dim_def)
  next
    case (I k)
    with hd show ?thesis by (auto simp: hinted_dim_def)
  next
    case (F hh)
    with hd obtain fd r where fd: "float_of_int d = Inr fd"
      and r: "round_float (fmul hh fd) = Inr r" and d': "d' = clamp r lo hi"
      by (auto simp: hinted_dim_def mul_float_int_def bind_err_eq_Inr)
    from r obtain x where x: "fmul hh fd = Finite x" "r = py_round x"
      by (cases "fmul hh fd") (simp_all add: round_float_def)
    have "float_of_int d = Inr fd \<and> fmul hh fd = Finite x
            \<and> max 1 d' = max 1 (clamp (py_round x) lo hi)"
      using fd x d' by simp
    then show ?thesis unfolding F num.case by blast
  qed
  have now: "height wd' = max 1 height'" "width wd' = max 1 width'"
    by (simp_all add: wd' sz' height_def width_def)
  have before: "height wd = fst (w_size a)" "width wd = snd (w_size a)"
    "min_height (attrs wd) = min_height a" "max_height (attrs wd) = max_height a"
    "min_width (attrs wd) = min_width a" "max_width (attrs wd) = max_width a"
    by (simp_all add: Widget height_def width_def)
  show ?thesis
    unfolding now before
    by (rule conjI [OF dim [OF hd] dim [OF wdim]])
qed

text \<open>
  The scenario of the spec: size (10, 10) and \<open>size_hint = (0.5, None)\<close> in a (20, 20)
  parent resolve to height 10 and width 10.
\<close>

theorem size_hint_resolution_witness:
  "map_sum id (\<lambda>wd'. (height wd', width wd')) (update_geometry (Some (20, 20))
      (init 0 (10, 10) (0, 0) (F (Finite (1 / 2)), N) None None None None
         (N, N) TOP_LEFT False True True None None)) = Inr (10, 10)"
proof -
  let ?wd = "init 0 (10, 10) (0, 0) (F (Finite (1 / 2)), N) None None None None
         (N, N) TOP_LEFT False True True None None"
  obtain wd' where run: "update_geometry (Some (20, 20)) ?wd = Inr wd'"
    by (simp add: init_def geometry_eval float_eval)
  have "size_hint (attrs ?wd) = (F (Finite (1 / 2)), N)"
    by (simp add: init_def)
  from size_hint_resolution [OF this _ run]
  have "height wd' = 10 \<and> width wd' = 10"
    by (auto simp: init_def geometry_eval float_eval)
  then show ?thesis
    by (simp add: run)
qed

text \<open>
  Without the raise to 1 the statement fails: a height hint of 0 in a parent of
  height 20 gives the candidate \<open>round(0 * 20) = 0\<close>, and the resolved height is 1.
\<close>

theorem size_hint_resolution_counterexample:
  "map_sum id height (update_geometry (Some (20, 20))
      (init 0 (10, 10) (0, 0) (F (Finite 0), N) None None None None
         (N, N) TOP_LEFT False True True None None)) = Inr 1
   \<and> bind_err (mul_float_int (Finite 0) 20) round_float = Inr 0
   \<and> clamp (0 :: int) None None = 0"
  by (simp add: geometry_eval float_eval)

text \<open>
  C9: for a widget with a parent, with its hints, bounds and anchor and the parent's
  size fixed, resolving the geometry twice gives the same as resolving it once: the
  same size and position, and the same for every descendant (and the same exception
  when the first resolution raises).
\<close>

theorem update_geometry_idempotent:
  "(case update_geometry (Some ps) wd of
      Inl e \<Rightarrow> Inl e
    | Inr wd' \<Rightarrow> update_geometry (Some ps) wd')
   = update_geometry (Some ps) wd"
  by (cases "update_geometry (Some ps) wd") (simp_all add: update_geometry_fixed)

text \<open>
  A widget with both hints and a child that has a height hint: the first resolution
  resolves (size (10, 7), child of height 5), and the second one changes nothing.
\<close>

theorem update_geometry_idempotent_witness:
  "map_sum id (\<lambda>wd'. (w_size (attrs wd'), map height (children wd')))
     (update_geometry (Some (20, 20))
        (Widget (attrs (init 0 (3, 7) (0, 0) (F (Finite (1 / 2)), N) None None None None
                   (F (Finite (1 / 2)), N) CENTER False True True None None))
           [init 1 (2, 2) (0, 0) (F (Finite (1 / 2)), N) None None None None
              (N, N) TOP_LEFT False True True None None])) = Inr ((10, 7), [5])
   \<and> (case update_geometry (Some (20, 20))
        (Widget (attrs (init 0 (3, 7) (0, 0) (F (Finite (1 / 2)), N) None None None None
                   (F (Finite (1 / 2)), N) CENTER False True True None None))
           [init 1 (2, 2) (0, 0) (F (Finite (1 / 2)), N) None None None None
              (N, N) TOP_LEFT False True True None None]) of
         Inl e \<Rightarrow> Inl e
       | Inr wd' \<Rightarrow> update_geometry (Some (20, 20)) wd')
      = update_geometry (Some (20, 20))
        (Widget (attrs (init 0 (3, 7) (0, 0) (F (Finite (1 / 2)), N) None None None None
                   (F (Finite (1 / 2)), N) CENTER False True True None None))
           [init 1 (2, 2) (0, 0) (F (Finite (1 / 2)), N) None None None None
              (N, N) TOP_LEFT False True True None None])"
proof (rule conjI)
  show "map_sum id (\<lambda>wd'. (w_size (attrs wd'), map height (children wd')))
     (update_geometry (Some (20, 20))
        (Widget (attrs (init 0 (3, 7) (0, 0) (F (Finite (1 / 2)), N) None None None None
                   (F (Finite (1 / 2)), N) CENTER False True True None None))
           [init 1 (2, 2) (0, 0) (F (Finite (1 / 2)), N) None None None None
              (N, N) TOP_LEFT False True True None None])) = Inr ((10, 7), [5])"
    by (simp add: init_def geometry_eval float_eval)
qed (rule update_geometry_idempotent)

section \<open>Properties of rendering\<close>

text \<open>A widget that lies strictly outside the destination on one side is not rendered.\<close>

lemma render_intersection_outside:
  assumes "bottom wd < fst vs \<or> snd vs \<le> top_w wd \<or> right wd < fst hs \<or> snd hs \<le> left wd"
  shows "render_intersection wd (vs, hs) = []"
  using assms by (cases wd) (auto simp: Let_def)

text \<open>
  C4, at the input where the code departs from it: the widget \<open>stacked\<close> covers the rows
  [0, 2) and the destination the rows [2, 5), so the row intervals do not meet.  The
  test \<open>wb < 0\<close> lets the case \<open>wb = 0\<close> through: \<open>render\<close> is called on the widget with
  an empty destination slice, and then on its child.
\<close>

theorem render_intersection_touching:
  "top_w stacked = 0 \<and> bottom stacked = 2
   \<and> render_intersection stacked ((2, 5), (0, 5)) =
     [Render 0 ((0, 0), (0, 2)) ((2, 2), (0, 2)), Render 1 ((0, 0), (0, 2)) ((2, 2), (0, 2))]"
  by (simp add: stacked_def init_default_def init_def top_w_def left_def bottom_def right_def
        height_def width_def)

section \<open>Properties of dispatch\<close>

lemma until_handled_none: "\<not> list_ex P xs \<Longrightarrow> until_handled P xs = xs"
  by (induction xs) (auto simp: until_handled_def)

lemma until_handled_append:
  "until_handled P (xs @ ys) =
     (if list_ex P xs then until_handled P xs else xs @ until_handled P ys)"
  by (induction xs) (auto simp: until_handled_def)

lemma py_any_spec:
  assumes "\<And>x. x \<in> set xs \<Longrightarrow>
             fst (f x) = until_handled P (order x) \<and> truthy (snd (f x)) = list_ex P (order x)"
  shows "py_any f xs =
           (until_handled P (concat (map order xs)), list_ex P (concat (map order xs)))"
  using assms
proof (induction xs)
  case Nil
  then show ?case by (simp add: until_handled_def)
next
  case (Cons x xs)
  obtain tr r where fx: "f x = (tr, r)" by (cases "f x")
  have hx: "tr = until_handled P (order x)" "truthy r = list_ex P (order x)"
    using Cons.prems [of x] fx by auto
  have rest: "py_any f xs =
           (until_handled P (concat (map order xs)), list_ex P (concat (map order xs)))"
    using Cons by simp
  show ?case
    using hx by (simp add: fx rest until_handled_append until_handled_none)
qed

lemma dispatch_refines:
  "map_prod id truthy (dispatch on_event wd event) = dispatch_spec on_event wd event"
proof (induction wd)
  case (Widget a cs)
  let ?P = "\<lambda>i. truthy (on_event i event)"
  let ?xs = "filter (\<lambda>widget. is_enabled (attrs widget)) (rev cs)"
  have "py_any (\<lambda>widget. dispatch on_event widget event) ?xs =
          (until_handled ?P (concat (map visit_order ?xs)),
           list_ex ?P (concat (map visit_order ?xs)))"
  proof (rule py_any_spec)
    fix x assume "x \<in> set ?xs"
    then have "x \<in> set cs" by simp
    from Widget.IH [OF this]
    show "fst (dispatch on_event x event) = until_handled ?P (visit_order x) \<and>
          truthy (snd (dispatch on_event x event)) = list_ex ?P (visit_order x)"
      by (cases "dispatch on_event x event") (simp add: dispatch_spec_def)
  qed
  then show ?case
    by (simp add: dispatch_spec_def until_handled_append until_handled_none truthy_def)
       (simp add: until_handled_def)
qed

text \<open>
  C3: for each of the five kinds of event, the handlers that run are those along the
  order "children in reverse list order, depth first, disabled children and their
  subtrees left out, the node itself last", up to and including the first handler that
  returns a truthy value; the dispatch is handled exactly when some handler along this
  order handles the event.  So the node's own handler, last in the order, runs only
  when no descendant handled the event.
\<close>

theorem dispatch_topmost_first:
  "map_prod id truthy (dispatch_press H wd key_press_event)
     = dispatch_spec (on_press H) wd key_press_event
   \<and> map_prod id truthy (dispatch_click H wd mouse_event)
     = dispatch_spec (on_click H) wd mouse_event
   \<and> map_prod id truthy (dispatch_double_click H wd mouse_event)
     = dispatch_spec (on_double_click H) wd mouse_event
   \<and> map_prod id truthy (dispatch_triple_click H wd mouse_event)
     = dispatch_spec (on_triple_click H) wd mouse_event
   \<and> map_prod id truthy (dispatch_paste H wd paste_event)
     = dispatch_spec (on_paste H) wd paste_event"
  by (simp add: dispatch_press_def dispatch_click_def dispatch_double_click_def
        dispatch_triple_click_def dispatch_paste_def dispatch_refines)

text \<open>
  The scenario of the spec, with a child 3 under B: when A and B both handle the click,
  the handlers of 3 and B run and B handles it; when only A does, 3, B and A run; when
  none does, the parent's handler runs last; when B is disabled, B and 3 are skipped.
\<close>

theorem dispatch_topmost_first_witness:
  "map_prod id truthy (dispatch_click (handled_by [1, 2]) (tree_AB True) ()) = ([3, 2], True)
   \<and> map_prod id truthy (dispatch_click (handled_by [1]) (tree_AB True) ()) = ([3, 2, 1], True)
   \<and> map_prod id truthy (dispatch_click (handled_by []) (tree_AB True) ())
       = ([3, 2, 1, 0], False)
   \<and> map_prod id truthy (dispatch_click (handled_by [3, 2, 0]) (tree_AB False) ())
       = ([1, 0], True)"
  using dispatch_topmost_first [of "handled_by [1, 2]" "tree_AB True" "()" "()" "()"]
        dispatch_topmost_first [of "handled_by [1]" "tree_AB True" "()" "()" "()"]
        dispatch_topmost_first [of "handled_by []" "tree_AB True" "()" "()" "()"]
        dispatch_topmost_first [of "handled_by [3, 2, 0]" "tree_AB False" "()" "()" "()"]
  by (simp add: dispatch_spec_def until_handled_def handled_by_def tree_AB_def
        init_default_def init_def truthy_def)

section \<open>Properties of subscriptions\<close>

text \<open>
  When some widget has subscribed to the property of the source, unsubscribing a widget
  that has not returns \<open>None\<close> and changes nothing.
\<close>

lemma unsubscribe_not_registered:
  assumes "attr \<in> set emitter_attrs" and "R attr source = Some subs" and "subs self = None"
  shows "unsubscribe R self source attr = Inr (None, R)"
  using assms by (auto simp: unsubscribe_def fun_eq_iff)

text \<open>
  C8, at the input where the code departs from it: with no subscription at all on the
  \<open>size\<close> of widget 2, \<open>instances[source]\<close> has no entry and \<open>unsubscribe\<close> raises
  KeyError instead of returning \<open>None\<close>.
\<close>

theorem unsubscribe_KeyError:
  "unsubscribe (\<lambda>attr. Map.empty) 1 2 ''size''
     = (Inl KeyError :: error + (unit option \<times> unit registry))"
  by (simp add: unsubscribe_def emitter_attrs_def)

section \<open>Properties of \<open>tween\<close>\<close>

lemma py_round_of_int: "py_round (of_int i) = i"
  by (simp add: py_round_def)

lemma fl_0: "fl 0 = Finite 0"
  by (simp add: fl_def)

lemma fl_1: "fl 1 = Finite 1"
  by (simp add: float_eval)

lemma finite_num_to_float: "finite_num b \<Longrightarrow> \<exists>y. to_float b = Inr (Finite y)"
proof (cases b)
  case (I j)
  assume "finite_num b"
  with I show ?thesis
    by (cases "fl (of_int j)") (simp_all add: float_of_int_def)
next
  case (F x)
  assume "finite_num b"
  with F show ?thesis by (cases x) simp_all
next
  case N
  assume "finite_num b"
  with N show ?thesis by simp
qed

text \<open>At \<open>p = 0\<close> the interpolation \<open>1.0 * a + 0.0 * b\<close> of a number and a finite target.\<close>

lemma lerp_0:
  assumes "to_float a = Inr x" and "is_number x" and "finite_num b"
  shows "lerp a b (Finite 0) = Inr x"
proof -
  obtain y where y: "to_float b = Inr (Finite y)"
    using finite_num_to_float [OF assms(3)] by blast
  have one: "fsub (Finite 1) (Finite 0) = Finite 1"
    by (simp add: fsub_def fl_1)
  have "fadd (fmul (Finite 1) x) (fmul (Finite 0) (Finite y)) = x"
    using assms(2) by (cases x) (simp_all add: fl_0)
  then show ?thesis by (simp add: lerp_def assms(1) y one)
qed

lemma exact_int_to_float:
  "exact_int i \<Longrightarrow> to_float (I i) = Inr (Finite (of_int i)) \<and> is_number (Finite (of_int i))"
  by (simp add: exact_int_def float_of_int_def)

lemma lerp_int_0:
  assumes "exact_int i" and "finite_num b"
  shows "bind_err (lerp (I i) b (Finite 0)) round_float = Inr i"
  using lerp_0 [of "I i" "Finite (of_int i)" b] exact_int_to_float [OF assms(1)] assms(2)
  by (simp add: round_float_def py_round_of_int)

lemma lerp_ints_0: "list_all int_pair zs \<Longrightarrow> lerp_ints zs (Finite 0) = Inr (map fst zs)"
proof (induction zs)
  case Nil
  then show ?case by simp
next
  case (Cons z zs)
  obtain a b where z: "z = (a, b)" by (cases z)
  from Cons.prems z obtain i where a: "a = I i" and i: "exact_int i" and b: "finite_num b"
    by (cases a) (auto simp: int_pair_def)
  show ?case using Cons a lerp_int_0 [OF i b] by (simp add: z)
qed

lemma lerp_floats_0: "list_all float_pair zs \<Longrightarrow> lerp_floats zs (Finite 0) = Inr (map fst zs)"
proof (induction zs)
  case Nil
  then show ?case by simp
next
  case (Cons z zs)
  obtain a b where z: "z = (a, b)" by (cases z)
  have "(if a = N then Inr N else map_sum id F (lerp a b (Finite 0))) = Inr a"
  proof (cases a)
    case (I i)
    with Cons.prems z show ?thesis by (simp add: float_pair_def)
  next
    case (F x)
    with Cons.prems z have "is_number x" "finite_num b" by (simp_all add: float_pair_def)
    then show ?thesis using lerp_0 [of a x b] F by simp
  next
    case N
    then show ?thesis by simp
  qed
  then show ?case using Cons by (simp add: z)
qed

lemma map_fst_zip_le: "length xs \<le> length ys \<Longrightarrow> map fst (zip xs ys) = xs"
  by (induction xs arbitrary: ys) (auto simp: Suc_le_length_iff)

lemma compatible_interpolate_0:
  "compatible sv tv \<Longrightarrow> interpolate sv tv (linear (Finite 0)) = Inr (Some sv)"
proof (induction sv tv rule: compatible.induct)
  case (1 i t)
  then show ?case using lerp_int_0 [of i t] by (simp add: linear_def)
next
  case (2 x t)
  then show ?case using lerp_0 [of "F x" x t] by (simp add: linear_def)
next
  case (3 i rest ts)
  then show ?case
    using lerp_ints_0 [of "zip (I i # rest) ts"] map_fst_zip_le [of "I i # rest" ts]
    by (simp add: linear_def)
qed (simp_all add: linear_def lerp_floats_0 map_fst_zip_le)

lemma tick_effects: "OnComplete \<notin> set (fst (tick setattr p items val st))"
proof (induction items arbitrary: val st)
  case Nil
  then show ?case by simp
next
  case (Cons item items)
  obtain sv pname target where item: "item = (sv, pname, target)" by (cases item)
  show ?case
  proof (cases "interpolate sv target p")
    case (Inl e)
    then show ?thesis by (simp add: item)
  next
    case (Inr m)
    show ?thesis
    proof (cases "case m of None \<Rightarrow> val | Some v \<Rightarrow> Some v")
      case None
      then show ?thesis by (simp add: item Inr)
    next
      case (Some v)
      show ?thesis
      proof (cases "setattr st pname v")
        case (Inl e)
        then show ?thesis by (simp add: item Inr Some)
      next
        case st': (Inr st')
        obtain es r where tk: "tick setattr p items (Some v) st' = (es, r)"
          by (cases "tick setattr p items (Some v) st'")
        with Cons.IH [of "Some v" st'] have "OnComplete \<notin> set es" by simp
        then show ?thesis by (simp add: item Inr Some st' tk)
      qed
    qed
  qed
qed

lemma tween_loop_effects:
  "tween_loop setattr end_time duration easing_function on_progress items val st clock
     = Some (effs, out) \<Longrightarrow> OnComplete \<notin> set effs"
proof (induction clock arbitrary: val st effs)
  case Nil
  then show ?case by simp
next
  case (Cons t clock)
  show ?case
  proof (cases "float_lt t end_time")
    case False
    with Cons.prems show ?thesis by simp
  next
    case True
    show ?thesis
    proof (cases "progress end_time t duration")
      case (Inl e)
      with Cons.prems True show ?thesis by simp
    next
      case (Inr q)
      let ?p = "easing_function q"
      obtain es r where tk: "tick setattr ?p items val st = (es, r)"
        by (cases "tick setattr ?p items val st")
      have es: "OnComplete \<notin> set es"
        using tick_effects [of setattr ?p items val st] tk by simp
      show ?thesis
      proof (cases r)
        case (Inl e)
        with Cons.prems True Inr tk es show ?thesis by simp
      next
        case r: (Inr vs)
        obtain v st' where vs: "vs = (v, st')" by (cases vs)
        from Cons.prems True Inr tk r vs obtain more where
          more: "tween_loop setattr end_time duration easing_function on_progress items v st'
                   clock = Some (more, out)"
          and effs: "effs = (es @ (if on_progress then [OnProgress] else []) @ [Sleep]) @ more"
          by (auto simp: Let_def)
        from Cons.IH [OF more] es show ?thesis by (simp add: effs)
      qed
    qed
  qed
qed

lemma set_targets_effects:
  "set_targets setattr properties st = (effs, Inr st') \<Longrightarrow>
     effs = map (\<lambda>(pname, target). SetAttr pname target) properties"
proof (induction properties arbitrary: st effs)
  case Nil
  then show ?case by simp
next
  case (Cons pt properties)
  obtain pname target where pt: "pt = (pname, target)" by (cases pt)
  show ?case
  proof (cases "setattr st pname target")
    case (Inl e)
    with Cons.prems show ?thesis by (simp add: pt)
  next
    case (Inr st1)
    obtain es r where rest: "set_targets setattr properties st1 = (es, r)"
      by (cases "set_targets setattr properties st1")
    with Cons.prems Inr have "r = Inr st'" and effs: "effs = SetAttr pname target # es"
      by (simp_all add: pt)
    with Cons.IH [of st1 es] rest show ?thesis by (simp add: pt)
  qed
qed

text \<open>The loop ends at the first reading that is not below \<open>end_time\<close>, or by raising.\<close>

lemma tween_loop_returns:
  "list_ex (\<lambda>t. \<not> float_lt t end_time) clock \<Longrightarrow>
     \<exists>effs out. tween_loop setattr end_time duration easing_function on_progress items val st
                  clock = Some (effs, out)"
proof (induction clock arbitrary: val st)
  case Nil
  then show ?case by simp
next
  case (Cons t clock)
  show ?case
  proof (cases "float_lt t end_time")
    case False
    then show ?thesis by simp
  next
    case True
    with Cons.prems have rest: "list_ex (\<lambda>t. \<not> float_lt t end_time) clock" by simp
    show ?thesis
    proof (cases "progress end_time t duration")
      case (Inl e)
      with True show ?thesis by simp
    next
      case (Inr q)
      obtain es r where tk: "tick setattr (easing_function q) items val st = (es, r)"
        by (cases "tick setattr (easing_function q) items val st")
      show ?thesis
      proof (cases r)
        case (Inl e)
        with True Inr tk show ?thesis by simp
      next
        case r: (Inr vs)
        obtain v st' where vs: "vs = (v, st')" by (cases vs)
        obtain more out where
          "tween_loop setattr end_time duration easing_function on_progress items v st' clock
             = Some (more, out)"
          using Cons.IH [OF rest] by blast
        with True Inr tk r vs show ?thesis by (simp add: Let_def)
      qed
    qed
  qed
qed

text \<open>When no tick raises, the loop ends normally.\<close>

lemma tween_loop_completes:
  assumes "\<And>t val st. t \<in> set clock \<Longrightarrow> float_lt t end_time \<Longrightarrow>
     \<exists>q effs val' st'. progress end_time t duration = Inr q
        \<and> tick setattr (easing_function q) items val st = (effs, Inr (val', st'))"
  shows "list_ex (\<lambda>t. \<not> float_lt t end_time) clock \<Longrightarrow>
     \<exists>effs st1. tween_loop setattr end_time duration easing_function on_progress items val st
                  clock = Some (effs, Inr st1)"
  using assms
proof (induction clock arbitrary: val st)
  case Nil
  then show ?case by simp
next
  case (Cons t clock)
  show ?case
  proof (cases "float_lt t end_time")
    case False
    then show ?thesis by simp
  next
    case True
    with Cons.prems have rest: "list_ex (\<lambda>t. \<not> float_lt t end_time) clock" by simp
    obtain q es v st' where q: "progress end_time t duration = Inr q"
      and tk: "tick setattr (easing_function q) items val st = (es, Inr (v, st'))"
      using Cons.prems(2) [of t val st] True by auto
    have "\<exists>effs st1. tween_loop setattr end_time duration easing_function on_progress items
                       v st' clock = Some (effs, Inr st1)"
      using rest Cons.prems(2) by (intro Cons.IH) auto
    then show ?thesis using True q tk by (auto simp: Let_def)
  qed
qed

text \<open>
  C7 (as amended): (1) when every tracked property has a start value and a target of
  matching shapes (\<open>compatible\<close>), the interpolation of every property at the linear
  easing of 0 is its start value; (2) whenever the coroutine runs to completion,
  whatever the easing, its effects end with one assignment of the exact target to each
  tracked property, none of which raises, followed by the completion callback, which
  is called nowhere before (so exactly once when one is given); (3) when a reading of
  the clock is not below the end time, the coroutine ends, normally or by raising;
  (4) and it runs to completion when moreover the start values can be read and neither
  a tick of the loop nor the final assignments raise.
\<close>

theorem tween_completes:
  "(list_all (\<lambda>(pname, target).
        case getattr st pname of None \<Rightarrow> False | Some sv \<Rightarrow> compatible sv target) properties
    \<longrightarrow> list_all (\<lambda>(pname, target).
        case getattr st pname of None \<Rightarrow> False
        | Some sv \<Rightarrow> interpolate sv target (linear (Finite 0)) = Inr (Some sv)) properties)
   \<and> (tween getattr setattr st duration easing_function on_start on_progress on_complete
         properties now clock = Some (effs, Inr st')
       \<longrightarrow> (\<exists>ticks st1.
              effs = (if on_start then [OnStart] else []) @ ticks
                      @ map (\<lambda>(pname, target). SetAttr pname target) properties
                      @ (if on_complete then [OnComplete] else [])
              \<and> OnComplete \<notin> set ticks
              \<and> set_targets setattr properties st1
                  = (map (\<lambda>(pname, target). SetAttr pname target) properties, Inr st')))
   \<and> (list_ex (\<lambda>t. \<not> float_lt t (fadd now duration)) clock
       \<longrightarrow> (\<exists>effs' out. tween getattr setattr st duration easing_function on_start on_progress
                          on_complete properties now clock = Some (effs', out)))
   \<and> (start_values (getattr st) (map fst properties) = Inr svs
       \<and> (\<forall>t val s. t \<in> set clock \<and> float_lt t (fadd now duration) \<longrightarrow>
             (\<exists>q es val' s'. progress (fadd now duration) t duration = Inr q
                \<and> tick setattr (easing_function q) (zip svs properties) val s
                    = (es, Inr (val', s'))))
       \<and> (\<forall>s. \<exists>es s'. set_targets setattr properties s = (es, Inr s'))
       \<and> list_ex (\<lambda>t. \<not> float_lt t (fadd now duration)) clock
       \<longrightarrow> (\<exists>effs' st2. tween getattr setattr st duration easing_function on_start on_progress
                          on_complete properties now clock = Some (effs', Inr st2)))"
proof (intro conjI impI)
  assume "list_all (\<lambda>(pname, target).
        case getattr st pname of None \<Rightarrow> False | Some sv \<Rightarrow> compatible sv target) properties"
  then show "list_all (\<lambda>(pname, target).
              case getattr st pname of None \<Rightarrow> False
              | Some sv \<Rightarrow> interpolate sv target (linear (Finite 0)) = Inr (Some sv)) properties"
    by (auto simp: list_all_iff compatible_interpolate_0 split: option.splits)
next
  assume run: "tween getattr setattr st duration easing_function on_start on_progress
         on_complete properties now clock = Some (effs, Inr st')"
  then obtain svs ticks st1 finals where
    loop: "tween_loop setattr (fadd now duration) duration easing_function on_progress
             (zip svs properties) None st clock = Some (ticks, Inr st1)"
    and fin: "set_targets setattr properties st1 = (finals, Inr st')"
    and effs: "effs = (if on_start then [OnStart] else []) @ ticks @ finals
                      @ (if on_complete then [OnComplete] else [])"
    by (auto simp: tween_def Let_def split: sum.splits option.splits prod.splits)
  have finals: "finals = map (\<lambda>(pname, target). SetAttr pname target) properties"
    using set_targets_effects [OF fin] .
  from tween_loop_effects [OF loop] effs fin finals
  show "\<exists>ticks st1.
              effs = (if on_start then [OnStart] else []) @ ticks
                      @ map (\<lambda>(pname, target). SetAttr pname target) properties
                      @ (if on_complete then [OnComplete] else [])
              \<and> OnComplete \<notin> set ticks
              \<and> set_targets setattr properties st1
                  = (map (\<lambda>(pname, target). SetAttr pname target) properties, Inr st')"
    by blast
next
  assume reach: "list_ex (\<lambda>t. \<not> float_lt t (fadd now duration)) clock"
  show "\<exists>effs' out. tween getattr setattr st duration easing_function on_start on_progress
                          on_complete properties now clock = Some (effs', out)"
  proof (cases "start_values (getattr st) (map fst properties)")
    case (Inl e)
    then show ?thesis by (simp add: tween_def)
  next
    case (Inr vs)
    obtain ticks out where loop:
      "tween_loop setattr (fadd now duration) duration easing_function on_progress
         (zip vs properties) None st clock = Some (ticks, out)"
      using tween_loop_returns [OF reach, where setattr = setattr and st = st and val = None
          and items = "zip vs properties" and duration = duration
          and easing_function = easing_function and on_progress = on_progress]
      by blast
    show ?thesis
    proof (cases out)
      case (Inl e)
      with Inr loop show ?thesis by (simp add: tween_def)
    next
      case st1: (Inr st1)
      obtain finals r where fin: "set_targets setattr properties st1 = (finals, r)"
        by (cases "set_targets setattr properties st1")
      with Inr loop st1 show ?thesis by (cases r) (simp_all add: tween_def)
    qed
  qed
next
  assume "start_values (getattr st) (map fst properties) = Inr svs
       \<and> (\<forall>t val s. t \<in> set clock \<and> float_lt t (fadd now duration) \<longrightarrow>
             (\<exists>q es val' s'. progress (fadd now duration) t duration = Inr q
                \<and> tick setattr (easing_function q) (zip svs properties) val s
                    = (es, Inr (val', s'))))
       \<and> (\<forall>s. \<exists>es s'. set_targets setattr properties s = (es, Inr s'))
       \<and> list_ex (\<lambda>t. \<not> float_lt t (fadd now duration)) clock"
  then have svs: "start_values (getattr st) (map fst properties) = Inr svs"
    and ticks: "\<And>t val s. t \<in> set clock \<Longrightarrow> float_lt t (fadd now duration) \<Longrightarrow>
             \<exists>q es val' s'. progress (fadd now duration) t duration = Inr q
                \<and> tick setattr (easing_function q) (zip svs properties) val s
                    = (es, Inr (val', s'))"
    and finals: "\<And>s. \<exists>es s'. set_targets setattr properties s = (es, Inr s')"
    and reach: "list_ex (\<lambda>t. \<not> float_lt t (fadd now duration)) clock"
    by blast+
  obtain es st1 where loop:
    "tween_loop setattr (fadd now duration) duration easing_function on_progress
       (zip svs properties) None st clock = Some (es, Inr st1)"
    using tween_loop_completes [of clock "fadd now duration" duration setattr easing_function
        "zip svs properties", OF ticks reach]
    by blast
  obtain fs st2 where "set_targets setattr properties st1 = (fs, Inr st2)"
    using finals by blast
  with svs loop
  show "\<exists>effs' st2. tween getattr setattr st duration easing_function on_start on_progress
                          on_complete properties now clock = Some (effs', Inr st2)"
    by (simp add: tween_def)
qed

lemmas tween_eval =
  tween_def example_getattr_def example_setattr_def example_store_def linear_def lerp_def
  progress_def fsub_def size_hint_component_def exact_int_def int_pair_def float_pair_def

text \<open>
  A tween of \<open>pos\<close> from (0, 0) to (5, 10) and of \<open>size_hint\<close> from (0.5, None) to
  (1.0, None) over one second with linear easing, the clock read at 0, 0.5 and 1: the
  first tick assigns the start values, the second the values half way, and the end
  assigns the targets and calls the completion callback once.
\<close>

lemma example_run:
  "tween example_getattr example_setattr example_store (Finite 1) linear True True True
      [(''pos'', Seq [I 5, I 10]), (''size_hint'', Seq [F (Finite 1), N])]
      (Finite 0) [Finite 0, Finite (1 / 2), Finite 1]
   = Some ([OnStart,
            SetAttr ''pos'' (Seq [I 0, I 0]), SetAttr ''size_hint'' (Seq [F (Finite (1 / 2)), N]),
            OnProgress, Sleep,
            SetAttr ''pos'' (Seq [I 2, I 5]), SetAttr ''size_hint'' (Seq [F (Finite (3 / 4)), N]),
            OnProgress, Sleep,
            SetAttr ''pos'' (Seq [I 5, I 10]), SetAttr ''size_hint'' (Seq [F (Finite 1), N]),
            OnComplete],
           Inr (example_store(''pos'' \<mapsto> Seq [I 5, I 10],
                              ''size_hint'' \<mapsto> Seq [F (Finite 1), N])))"
  by (simp add: tween_eval float_eval)

lemma example_compatible:
  "list_all (\<lambda>(pname, target).
      case example_getattr example_store pname of None \<Rightarrow> False
      | Some sv \<Rightarrow> compatible sv target)
     [(''pos'', Seq [I 5, I 10]), (''size_hint'', Seq [F (Finite 1), N])]"
  by (simp add: tween_eval float_eval)

theorem tween_completes_witness:
  "tween example_getattr example_setattr example_store (Finite 1) linear True True True
      [(''pos'', Seq [I 5, I 10]), (''size_hint'', Seq [F (Finite 1), N])]
      (Finite 0) [Finite 0, Finite (1 / 2), Finite 1]
   = Some ([OnStart,
            SetAttr ''pos'' (Seq [I 0, I 0]), SetAttr ''size_hint'' (Seq [F (Finite (1 / 2)), N]),
            OnProgress, Sleep,
            SetAttr ''pos'' (Seq [I 2, I 5]), SetAttr ''size_hint'' (Seq [F (Finite (3 / 4)), N]),
            OnProgress, Sleep,
            SetAttr ''pos'' (Seq [I 5, I 10]), SetAttr ''size_hint'' (Seq [F (Finite 1), N]),
            OnComplete],
           Inr (example_store(''pos'' \<mapsto> Seq [I 5, I 10],
                              ''size_hint'' \<mapsto> Seq [F (Finite 1), N])))
   \<and> interpolate (Seq [I 0, I 0]) (Seq [I 5, I 10]) (linear (Finite 0))
       = Inr (Some (Seq [I 0, I 0]))
   \<and> interpolate (Seq [F (Finite (1 / 2)), N]) (Seq [F (Finite 1), N]) (linear (Finite 0))
       = Inr (Some (Seq [F (Finite (1 / 2)), N]))
   \<and> (\<exists>ticks st1.
         [OnStart,
          SetAttr ''pos'' (Seq [I 0, I 0]), SetAttr ''size_hint'' (Seq [F (Finite (1 / 2)), N]),
          OnProgress, Sleep,
          SetAttr ''pos'' (Seq [I 2, I 5]), SetAttr ''size_hint'' (Seq [F (Finite (3 / 4)), N]),
          OnProgress, Sleep,
          SetAttr ''pos'' (Seq [I 5, I 10]), SetAttr ''size_hint'' (Seq [F (Finite 1), N]),
          OnComplete]
         = [OnStart] @ ticks
             @ [SetAttr ''pos'' (Seq [I 5, I 10]), SetAttr ''size_hint'' (Seq [F (Finite 1), N])]
             @ [OnComplete]
         \<and> OnComplete \<notin> set ticks
         \<and> set_targets example_setattr
               [(''pos'', Seq [I 5, I 10]), (''size_hint'', Seq [F (Finite 1), N])] st1
             = ([SetAttr ''pos'' (Seq [I 5, I 10]),
                 SetAttr ''size_hint'' (Seq [F (Finite 1), N])],
                Inr (example_store(''pos'' \<mapsto> Seq [I 5, I 10],
                                   ''size_hint'' \<mapsto> Seq [F (Finite 1), N]))))"
proof -
  let ?props = "[(''pos'', Seq [I 5, I 10]), (''size_hint'', Seq [F (Finite 1), N])]"
  note main = tween_completes [where getattr = example_getattr and setattr = example_setattr
      and st = example_store and duration = "Finite 1" and easing_function = linear
      and on_start = True and on_progress = True and on_complete = True
      and properties = ?props and now = "Finite 0"
      and clock = "[Finite 0, Finite (1 / 2), Finite 1]"]
  from main example_compatible
  have "list_all (\<lambda>(pname, target).
          case example_getattr example_store pname of None \<Rightarrow> False
          | Some sv \<Rightarrow> interpolate sv target (linear (Finite 0)) = Inr (Some sv)) ?props"
    by blast
  then have start: "interpolate (Seq [I 0, I 0]) (Seq [I 5, I 10]) (linear (Finite 0))
       = Inr (Some (Seq [I 0, I 0]))
     \<and> interpolate (Seq [F (Finite (1 / 2)), N]) (Seq [F (Finite 1), N]) (linear (Finite 0))
       = Inr (Some (Seq [F (Finite (1 / 2)), N]))"
    by (simp add: example_getattr_def example_store_def)
  from main example_run
  have "\<exists>ticks st1.
         [OnStart,
          SetAttr ''pos'' (Seq [I 0, I 0]), SetAttr ''size_hint'' (Seq [F (Finite (1 / 2)), N]),
          OnProgress, Sleep,
          SetAttr ''pos'' (Seq [I 2, I 5]), SetAttr ''size_hint'' (Seq [F (Finite (3 / 4)), N]),
          OnProgress, Sleep,
          SetAttr ''pos'' (Seq [I 5, I 10]), SetAttr ''size_hint'' (Seq [F (Finite 1), N]),
          OnComplete]
         = (if True then [OnStart] else []) @ ticks
             @ map (\<lambda>(pname, target). SetAttr pname target) ?props
             @ (if True then [OnComplete] else [])
         \<and> OnComplete \<notin> set ticks
         \<and> set_targets example_setattr ?props st1
             = (map (\<lambda>(pname, target). SetAttr pname target) ?props,
                Inr (example_store(''pos'' \<mapsto> Seq [I 5, I 10],
                                   ''size_hint'' \<mapsto> Seq [F (Finite 1), N])))"
    by blast
  then have ends: "\<exists>ticks st1.
         [OnStart,
          SetAttr ''pos'' (Seq [I 0, I 0]), SetAttr ''size_hint'' (Seq [F (Finite (1 / 2)), N]),
          OnProgress, Sleep,
          SetAttr ''pos'' (Seq [I 2, I 5]), SetAttr ''size_hint'' (Seq [F (Finite (3 / 4)), N]),
          OnProgress, Sleep,
          SetAttr ''pos'' (Seq [I 5, I 10]), SetAttr ''size_hint'' (Seq [F (Finite 1), N]),
          OnComplete]
         = [OnStart] @ ticks
             @ [SetAttr ''pos'' (Seq [I 5, I 10]), SetAttr ''size_hint'' (Seq [F (Finite 1), N])]
             @ [OnComplete]
         \<and> OnComplete \<notin> set ticks
         \<and> set_targets example_setattr ?props st1
             = ([SetAttr ''pos'' (Seq [I 5, I 10]),
                 SetAttr ''size_hint'' (Seq [F (Finite 1), N])],
                Inr (example_store(''pos'' \<mapsto> Seq [I 5, I 10],
                                   ''size_hint'' \<mapsto> Seq [F (Finite 1), N])))"
    by simp
  from example_run start ends show ?thesis by (intro conjI) blast+
qed

text \<open>
  The claim as stated fails for a start value that is a sequence with an int first and
  a float after it, such as the \<open>pos_hint\<close> (0, 0.5) that \<open>Widget(pos_hint=(0, .5))\<close>
  stores: the case for sequences of ints rounds every component, and at the linear
  easing of 0 the interpolation towards (1.0, 1.0) is (0, 0), which the tween assigns in
  its first tick.  It fails as well for an int that no float carries: \<open>2 ^ 53 + 1\<close>
  comes back as \<open>2 ^ 53\<close>.
\<close>

theorem tween_completes_counterexample:
  "example_getattr example_store ''pos_hint'' = Some (Seq [I 0, F (Finite (1 / 2))])
   \<and> interpolate (Seq [I 0, F (Finite (1 / 2))]) (Seq [F (Finite 1), F (Finite 1)])
       (linear (Finite 0)) = Inr (Some (Seq [I 0, I 0]))
   \<and> Seq [I 0, I 0] \<noteq> Seq [I 0, F (Finite (1 / 2))]
   \<and> tween example_getattr example_setattr example_store (Finite 1) linear True True True
       [(''pos_hint'', Seq [F (Finite 1), F (Finite 1)])] (Finite 0) [Finite 0, Finite 1]
     = Some ([OnStart, SetAttr ''pos_hint'' (Seq [I 0, I 0]), OnProgress, Sleep,
              SetAttr ''pos_hint'' (Seq [F (Finite 1), F (Finite 1)]), OnComplete],
             Inr (example_store(''pos_hint'' \<mapsto> Seq [F (Finite 1), F (Finite 1)])))
   \<and> interpolate (Scalar (I (2 ^ 53 + 1))) (Scalar (I 0)) (linear (Finite 0))
       = Inr (Some (Scalar (I (2 ^ 53))))"
  by (simp add: tween_eval float_eval)

text \<open>
  A setter that raises ends the coroutine: the target \<open>(5,)\<close> for \<open>pos\<close> makes the first
  tick assign a sequence of one component, which \<open>Point(*point)\<close> refuses.
\<close>

lemma tween_setter_raises:
  "tween example_getattr example_setattr example_store (Finite 1) linear True True True
       [(''pos'', Seq [I 5])] (Finite 0) [Finite 0, Finite 1]
     = Some ([OnStart, SetAttr ''pos'' (Seq [I 0])], Inl TypeError)"
  by (simp add: tween_eval float_eval)

section \<open>Properties of \<open>Graphics\<close>\<close>

text \<open>
  C10 (as amended): after the alpha setter has run on a float, the stored alpha is 0
  for an input below 0 (minus infinity included), 1 for an input above 1 (infinity
  included), the input itself when it lies in [0, 1], and NaN for NaN, which no
  comparison moves; so for every float that is not NaN the stored alpha lies in the
  closed interval [0, 1].  \<open>Graphics.__init__\<close> assigns through the setter as well.
\<close>

theorem alpha_clamped:
  "alpha (set_alpha g x) =
     (case x of
        Finite r \<Rightarrow> Finite (if r < 0 then 0 else if 1 < r then 1 else r)
      | PosInf \<Rightarrow> Finite 1
      | NegInf \<Rightarrow> Finite 0
      | NaN \<Rightarrow> NaN)
   \<and> (x \<noteq> NaN \<longrightarrow> (\<exists>a. alpha (set_alpha g x) = Finite a \<and> 0 \<le> a \<and> a \<le> 1))
   \<and> alpha (init_graphics i tr color x interp) = alpha (set_alpha g x)"
  by (cases x) (simp_all add: init_graphics_def set_alpha_def clamp_float_def)

theorem alpha_clamped_witness:
  "alpha (set_alpha (example_graphics 1) (Finite (- 3))) = Finite 0
   \<and> alpha (set_alpha (example_graphics 1) (Finite 2)) = Finite 1
   \<and> alpha (set_alpha (example_graphics 1) (Finite (1 / 4))) = Finite (1 / 4)
   \<and> alpha (set_alpha (example_graphics 1) PosInf) = Finite 1
   \<and> alpha (set_alpha (example_graphics 1) NegInf) = Finite 0
   \<and> alpha (example_graphics 7) = Finite 1
   \<and> (\<exists>a. alpha (set_alpha (example_graphics 1) (Finite 2)) = Finite a \<and> 0 \<le> a \<and> a \<le> 1)"
  using alpha_clamped [of "example_graphics 1" "Finite (- 3)"]
        alpha_clamped [of "example_graphics 1" "Finite 2"]
        alpha_clamped [of "example_graphics 1" "Finite (1 / 4)"]
        alpha_clamped [of "example_graphics 1" PosInf]
        alpha_clamped [of "example_graphics 1" NegInf]
        alpha_clamped [of "example_graphics 1" "Finite 7" 0 True "(10, 20, 30, 255)" "''linear''"]
  by (simp add: example_graphics_def)

text \<open>
  The claim as stated fails at NaN, which is a float: the setter stores it, and the
  stored alpha is no number of [0, 1].
\<close>

theorem alpha_clamped_counterexample:
  "alpha (set_alpha (example_graphics 1) NaN) = NaN
   \<and> \<not> (\<exists>a. alpha (set_alpha (example_graphics 1) NaN) = Finite a \<and> 0 \<le> a \<and> a \<le> 1)"
  by (simp add: set_alpha_def clamp_float_def)

lemma py_int_of_int: "py_int (of_int n) = n"
  by (simp add: py_int_def)

lemma blend_channel_0: "blend_channel t a 0 e = e"
proof -
  have "to_uint8 (of_int (uint e)) = e"
    unfolding to_uint8_def py_int_of_int by simp
  then show ?thesis
    unfolding blend_channel_def by (simp only: mult_zero_right add_0_left)
qed

lemma blend_rgb_0: "blend_rgb t 0 e = e"
  by (cases t; cases e) (simp add: blend_rgb_def blend_channel_0)

lemma norm_alpha_0: "norm_alpha anc 0 = 0"
  by (simp add: norm_alpha_def)

lemma render_rect_alpha_0:
  assumes "is_transparent g" and "alpha g = Finite 0"
  shows "render_rect g abs_pos anc r cv p =
           (if in_rect r p then
              \<lparr> char = HALF_BLOCK,
                foreground = (if char (cv p) \<noteq> HALF_BLOCK then background (cv p)
                              else foreground (cv p)),
                background = background (cv p) \<rparr>
            else cv p)"
  using assms by (simp add: render_rect_def blend_cell_def norm_alpha_0 blend_rgb_0)

text \<open>
  C1 (as amended): for a transparent gadget with alpha 0, whatever its texture, its
  position, its ancestors and its region, the render leaves the background color of
  every cell unchanged; it leaves the foreground color unchanged in every cell that is
  not covered or already shows the half block, and in a covered cell that shows another
  character the foreground color becomes the background color of that cell.  Covered
  cells show the half block afterwards.
\<close>

theorem render_alpha_0:
  assumes "is_transparent g" and "alpha g = Finite 0"
  shows "background (render_graphics g abs_pos anc rects cv p) = background (cv p)
       \<and> foreground (render_graphics g abs_pos anc rects cv p) =
           (if list_ex (\<lambda>r. in_rect r p) rects \<and> char (cv p) \<noteq> HALF_BLOCK
            then background (cv p) else foreground (cv p))
       \<and> char (render_graphics g abs_pos anc rects cv p) =
           (if list_ex (\<lambda>r. in_rect r p) rects then HALF_BLOCK else char (cv p))"
  unfolding render_graphics_def
proof (induction rects arbitrary: cv)
  case Nil
  then show ?case by simp
next
  case (Cons r rects)
  note IH = Cons.IH [of "render_rect g abs_pos anc r cv"]
  have cell: "render_rect g abs_pos anc r cv p =
           (if in_rect r p then
              \<lparr> char = HALF_BLOCK,
                foreground = (if char (cv p) \<noteq> HALF_BLOCK then background (cv p)
                              else foreground (cv p)),
                background = background (cv p) \<rparr>
            else cv p)"
    by (rule render_rect_alpha_0 [OF assms])
  show ?case
    by (simp only: fold.simps comp_apply IH cell) simp
qed

text \<open>
  On the screen of white-on-black spaces, the gadget with alpha 0 leaves the background
  of the covered cell (0, 0) black and turns its foreground black; the cell (0, 1) next
  to it is not touched.
\<close>

theorem render_alpha_0_witness:
  "background (render_graphics (example_graphics 0) (0, 0) [1] [(0, 0, 1, 1)]
      example_canvas (0, 0)) = (0, 0, 0)
   \<and> foreground (render_graphics (example_graphics 0) (0, 0) [1] [(0, 0, 1, 1)]
      example_canvas (0, 0)) = (0, 0, 0)
   \<and> foreground (render_graphics (example_graphics 0) (0, 0) [1] [(0, 0, 1, 1)]
      example_canvas (0, 1)) = (255, 255, 255)"
  using render_alpha_0 [of "example_graphics 0" "(0, 0)" "[1]" "[(0, 0, 1, 1)]"
          example_canvas "(0, 0)"]
        render_alpha_0 [of "example_graphics 0" "(0, 0)" "[1]" "[(0, 0, 1, 1)]"
          example_canvas "(0, 1)"]
  by (simp add: example_graphics_def init_graphics_def set_alpha_def clamp_float_def
        example_canvas_def in_rect_def HALF_BLOCK_def)

text \<open>
  The claim as stated fails in that cell: it is covered, the gadget is transparent with
  alpha 0, and the foreground color is not what it was.
\<close>

theorem render_alpha_0_counterexample:
  "is_transparent (example_graphics 0) \<and> alpha (example_graphics 0) = Finite 0
   \<and> in_rect (0, 0, 1, 1) (0, 0)
   \<and> foreground (render_graphics (example_graphics 0) (0, 0) [1] [(0, 0, 1, 1)]
        example_canvas (0, 0))
      \<noteq> foreground (example_canvas (0, 0))"
  by (simp add: example_graphics_def init_graphics_def set_alpha_def clamp_float_def
        example_canvas_def in_rect_def HALF_BLOCK_def render_graphics_def render_rect_def
        blend_cell_def blend_rgb_def blend_channel_def to_uint8_def py_int_def
        norm_alpha_def even_rows_def odd_rows_def)

end
